theory Spec2Isabelle
  imports Main "HOL-Library.Word"
begin

section \<open>JavaScript values read from the construct context\<close>

text \<open>
  The CDK context (\<^verbatim>\<open>cdk.json\<close>, \<^verbatim>\<open>--context key=value\<close>) and the fields of
  \<^verbatim>\<open>package.json\<close> hold JSON scalars. A lookup that finds nothing yields
  \<^verbatim>\<open>undefined\<close>. Strings are ASCII text. Numbers are the integers every double
  holds exactly and prints in plain digits, \<open>- 2\<^sup>5\<^sup>3\<close> to \<open>2\<^sup>5\<^sup>3 - 1\<close>: a 54-bit two's
  complement word, read by \<open>sint\<close>. Fractions and larger numbers are outside the model.
\<close>

type_synonym safe_integer = "54 word"

datatype jsval = JUndefined | JNull | JBool bool | JNum safe_integer | JStr string

text \<open>
  The exceptions.
  \<^item> \<^verbatim>\<open>TypeError\<close> is what the engine throws for a method call on
    \<^verbatim>\<open>undefined\<close>/\<^verbatim>\<open>null\<close> ("Cannot read properties of undefined") and for calling
    a method the value does not have ("x.toLowerCase is not a function").
  \<^item> \<^verbatim>\<open>StackRejected id\<close>: the framework's \<^verbatim>\<open>Stack\<close> constructor, reached by
    \<^verbatim>\<open>super(scope, id, props)\<close>, rejects the id or the properties.
  \<^item> \<^verbatim>\<open>InvalidRepositoryName name\<close>: \<^verbatim>\<open>new ecr.Repository\<close> rejects the repository
    name.
  \<^item> \<^verbatim>\<open>InvalidDesiredCount\<close>: \<^verbatim>\<open>new ApplicationLoadBalancedFargateService\<close> rejects
    the desired count ("You must specify a desiredCount greater than 0").
  \<^item> \<^verbatim>\<open>ConfigurationError\<close> is the error class the specification names, carrying
    the name of the offending field; no statement of the source constructs it.
\<close>

datatype error =
    TypeError
  | StackRejected string
  | InvalidRepositoryName string
  | InvalidDesiredCount
  | ConfigurationError string

text \<open>Truthiness, as tested by \<^verbatim>\<open>c ? a : b\<close> and \<^verbatim>\<open>a || b\<close>.\<close>

fun truthy :: "jsval \<Rightarrow> bool" where
  "truthy JUndefined = False"
| "truthy JNull = False"
| "truthy (JBool b) = b"
| "truthy (JNum n) = (n \<noteq> 0)"
| "truthy (JStr s) = (s \<noteq> [])"

text \<open>\<^verbatim>\<open>a || b\<close>\<close>

definition js_or :: "jsval \<Rightarrow> jsval \<Rightarrow> jsval" where
  "js_or a b = (if truthy a then a else b)"

text \<open>Decimal digits of an integer, as \<^verbatim>\<open>String(n)\<close> prints a safe integer.\<close>

function string_of_nat :: "nat \<Rightarrow> string" where
  "string_of_nat n =
     (if n < 10 then [char_of (48 + n)]
      else string_of_nat (n div 10) @ [char_of (48 + n mod 10)])"
  by pat_completeness auto
termination
  by (relation "measure id") auto

declare string_of_nat.simps [simp del]

definition string_of_int :: "int \<Rightarrow> string" where
  "string_of_int i =
     (if i < 0 then ''-'' @ string_of_nat (nat (- i)) else string_of_nat (nat i))"

text \<open>The string a template literal \<^verbatim>\<open>`${v}`\<close> inserts for a value.\<close>

fun ToString :: "jsval \<Rightarrow> string" where
  "ToString JUndefined = ''undefined''"
| "ToString JNull = ''null''"
| "ToString (JBool b) = (if b then ''true'' else ''false'')"
| "ToString (JNum n) = string_of_int (sint n)"
| "ToString (JStr s) = s"

text \<open>Character classes of ASCII, and \<^verbatim>\<open>String.prototype.toLowerCase\<close>: A-Z become a-z.\<close>

definition is_upper :: "char \<Rightarrow> bool" where
  "is_upper c = (65 \<le> (of_char c :: nat) \<and> (of_char c :: nat) \<le> 90)"

definition is_lower :: "char \<Rightarrow> bool" where
  "is_lower c = (97 \<le> (of_char c :: nat) \<and> (of_char c :: nat) \<le> 122)"

definition is_digit :: "char \<Rightarrow> bool" where
  "is_digit c = (48 \<le> (of_char c :: nat) \<and> (of_char c :: nat) \<le> 57)"

definition is_alnum :: "char \<Rightarrow> bool" where
  "is_alnum c = (is_upper c \<or> is_lower c \<or> is_digit c)"

definition lower_char :: "char \<Rightarrow> char" where
  "lower_char c = (if is_upper c then char_of ((of_char c :: nat) + 32) else c)"

definition toLowerCase :: "string \<Rightarrow> string" where
  "toLowerCase s = map lower_char s"

text \<open>
  The method call \<^verbatim>\<open>v.toLowerCase()\<close> on a context value: only a string has the
  method; on anything else the call throws.
\<close>

fun call_toLowerCase :: "jsval \<Rightarrow> error + string" where
  "call_toLowerCase (JStr s) = Inr (toLowerCase s)"
| "call_toLowerCase _ = Inl TypeError"

text \<open>
  The method call \<^verbatim>\<open>v.toString()\<close>: \<^verbatim>\<open>undefined\<close> and \<^verbatim>\<open>null\<close> have no
  properties; the other values print as in a template.
\<close>

fun call_toString :: "jsval \<Rightarrow> error + string" where
  "call_toString JUndefined = Inl TypeError"
| "call_toString JNull = Inl TypeError"
| "call_toString v = Inr (ToString v)"

section \<open>The checks of the framework's constructs\<close>

text \<open>
  The constructors hand derived values to constructs of \<^verbatim>\<open>aws-cdk-lib\<close>, which is not
  part of the repository. Three of them reject a value by throwing: the base constructor
  \<^verbatim>\<open>Stack\<close> (the id and the properties), \<^verbatim>\<open>ecr.Repository\<close> (the repository name) and
  \<^verbatim>\<open>ApplicationLoadBalancedFargateService\<close> (the desired count). The constructors of
  this development take the three checks as a parameter.
\<close>

text \<open>
  The properties handed to a stack. The \<^verbatim>\<open>env\<close> property (account and region of the
  process environment) goes to the framework unread and is left out.
\<close>

record stack_props =
  description :: string

record framework =
  accepts_stack :: "string \<Rightarrow> stack_props \<Rightarrow> bool"
  accepts_repository_name :: "string \<Rightarrow> bool"
  accepts_desired_count :: "jsval \<Rightarrow> bool"

subsection \<open>The stack\<close>

text \<open>
  The base constructor throws for a description of more than 512 characters. The
  construct tree escapes the path separator of an id: every \<^verbatim>\<open>/\<close> becomes
  \<^verbatim>\<open>--\<close>. The stack name of a stack directly under the app is that id when it has at
  most 128 characters; a longer id is stripped of its non-alphanumeric characters and,
  when still too long, cut in the middle and followed by a hash, so that it begins with
  the first alphanumeric character of the id. The name has to match
  \<^verbatim>\<open>/^[A-Za-z][A-Za-z0-9-]*$/\<close>.
\<close>

definition sanitizeId :: "string \<Rightarrow> string" where
  "sanitizeId s = concat (map (\<lambda>c. if c = CHR ''/'' then ''--'' else [c]) s)"

definition valid_stack_name :: "string \<Rightarrow> bool" where
  "valid_stack_name s =
     (case s of
        [] \<Rightarrow> False
      | c # cs \<Rightarrow> (is_upper c \<or> is_lower c) \<and> list_all (\<lambda>d. is_alnum d \<or> d = CHR ''-'') cs)"

definition cdk_accepts_stack_id :: "string \<Rightarrow> bool" where
  "cdk_accepts_stack_id sid =
     (let s = sanitizeId sid
      in if length s \<le> 128 then valid_stack_name s
         else valid_stack_name (take 1 (filter is_alnum s)))"

definition cdk_accepts_stack :: "string \<Rightarrow> stack_props \<Rightarrow> bool" where
  "cdk_accepts_stack sid props =
     (length (description props) \<le> 512 \<and> cdk_accepts_stack_id sid)"

subsection \<open>The repository name\<close>

text \<open>
  \<^verbatim>\<open>Repository.validateRepositoryName\<close>: an empty name is not checked; any other has 2
  to 256 characters and matches
  \<^verbatim>\<open>/^(?:[a-z0-9]+(?:[._-][a-z0-9]+)*[/])*[a-z0-9]+(?:[._-][a-z0-9]+)*$/\<close>, that is, it
  is made of lowercase letters, digits and the separators \<^verbatim>\<open>. _ - /\<close>, and every
  separator stands between two letters or digits.
\<close>

definition is_repository_char :: "char \<Rightarrow> bool" where
  "is_repository_char c = (is_lower c \<or> is_digit c)"

definition is_repository_separator :: "char \<Rightarrow> bool" where
  "is_repository_separator c = (c \<in> set ''._-/'')"

fun repository_name_pattern :: "string \<Rightarrow> bool" where
  "repository_name_pattern [] = False"
| "repository_name_pattern [c] = is_repository_char c"
| "repository_name_pattern (c # d # cs) =
     (is_repository_char c \<and>
      (if is_repository_separator d then repository_name_pattern cs
       else repository_name_pattern (d # cs)))"

definition cdk_accepts_repository_name :: "string \<Rightarrow> bool" where
  "cdk_accepts_repository_name name =
     (name = [] \<or> (2 \<le> length name \<and> length name \<le> 256 \<and> repository_name_pattern name))"

subsection \<open>The desired count\<close>

text \<open>
  The service throws when \<^verbatim>\<open>props.desiredCount !== undefined && props.desiredCount < 1\<close>.
  The comparison converts its left operand to a number. For a string this is the
  engine's \<^verbatim>\<open>StringToNumber\<close>: white space is trimmed, the empty string is 0, and the
  rest is a hexadecimal, octal or binary literal, a signed \<^verbatim>\<open>Infinity\<close>, or a signed
  decimal literal with an optional fraction and exponent; anything else is
  \<^verbatim>\<open>NaN\<close>. A decimal literal is kept as its exact value \<open>m * 10\<^sup>k\<close>.
\<close>

datatype str_number = NotANumber | Infinite bool | Decimal int int

definition is_space :: "char \<Rightarrow> bool" where
  "is_space c = ((of_char c :: nat) \<in> {9, 10, 11, 12, 13, 32})"

definition trim :: "string \<Rightarrow> string" where
  "trim s = rev (dropWhile is_space (rev (dropWhile is_space s)))"

definition digit_value :: "char \<Rightarrow> int" where
  "digit_value c =
     (if is_digit c then of_char c - 48
      else if is_lower c then of_char c - 87
      else of_char c - 55)"

definition is_radix_digit :: "int \<Rightarrow> char \<Rightarrow> bool" where
  "is_radix_digit radix c = (is_alnum c \<and> digit_value c < radix)"

definition digits_value :: "int \<Rightarrow> string \<Rightarrow> int" where
  "digits_value radix s = foldl (\<lambda>n c. radix * n + digit_value c) 0 s"

definition radix_literal :: "int \<Rightarrow> string \<Rightarrow> str_number" where
  "radix_literal radix ds =
     (if ds \<noteq> [] \<and> list_all (is_radix_digit radix) ds
      then Decimal (digits_value radix ds) 0 else NotANumber)"

definition exponent_part :: "string \<Rightarrow> int option" where
  "exponent_part s =
     (case s of
        [] \<Rightarrow> Some 0
      | c # r \<Rightarrow>
          if c = CHR ''e'' \<or> c = CHR ''E'' then
            (let negative = (take 1 r = ''-'');
                 ds = (if take 1 r = ''-'' \<or> take 1 r = ''+'' then drop 1 r else r)
             in if ds \<noteq> [] \<and> list_all is_digit ds
                then Some (if negative then - digits_value 10 ds else digits_value 10 ds)
                else None)
          else None)"

definition unsigned_decimal :: "string \<Rightarrow> str_number" where
  "unsigned_decimal s =
     (if s = ''Infinity'' then Infinite False
      else
        (let ip = takeWhile is_digit s;
             r1 = dropWhile is_digit s;
             has_point = (take 1 r1 = ''.'');
             fp = (if has_point then takeWhile is_digit (drop 1 r1) else []);
             r2 = (if has_point then dropWhile is_digit (drop 1 r1) else r1)
         in if ip = [] \<and> fp = [] then NotANumber
            else (case exponent_part r2 of
                    None \<Rightarrow> NotANumber
                  | Some e \<Rightarrow> Decimal (digits_value 10 (ip @ fp)) (e - int (length fp)))))"

definition negate :: "str_number \<Rightarrow> str_number" where
  "negate x =
     (case x of
        NotANumber \<Rightarrow> NotANumber
      | Infinite negative \<Rightarrow> Infinite (\<not> negative)
      | Decimal m k \<Rightarrow> Decimal (- m) k)"

definition StringToNumber :: "string \<Rightarrow> str_number" where
  "StringToNumber s =
     (let t = trim s
      in if t = [] then Decimal 0 0
         else if take 2 t = ''0x'' \<or> take 2 t = ''0X'' then radix_literal 16 (drop 2 t)
         else if take 2 t = ''0o'' \<or> take 2 t = ''0O'' then radix_literal 8 (drop 2 t)
         else if take 2 t = ''0b'' \<or> take 2 t = ''0B'' then radix_literal 2 (drop 2 t)
         else if take 1 t = ''-'' then negate (unsigned_decimal (drop 1 t))
         else if take 1 t = ''+'' then unsigned_decimal (drop 1 t)
         else unsigned_decimal t)"

text \<open>
  Whether the double nearest to the value is below 1. The largest double below 1 is
  \<open>1 - 2\<^sup>-\<^sup>5\<^sup>3\<close>, and a value half way between the two rounds to 1, so the double is
  below 1 exactly when the value is below \<open>1 - 2\<^sup>-\<^sup>5\<^sup>4\<close>.
\<close>

definition number_less_than_one :: "str_number \<Rightarrow> bool" where
  "number_less_than_one x =
     (case x of
        NotANumber \<Rightarrow> False
      | Infinite negative \<Rightarrow> negative
      | Decimal m k \<Rightarrow>
          if 0 \<le> k then m \<le> 0
          else m * 2 ^ 54 < (2 ^ 54 - 1) * 10 ^ nat (- k))"

text \<open>\<^verbatim>\<open>v < 1\<close> for a context value.\<close>

fun less_than_one :: "jsval \<Rightarrow> bool" where
  "less_than_one JUndefined = False"
| "less_than_one JNull = True"
| "less_than_one (JBool b) = (\<not> b)"
| "less_than_one (JNum n) = (sint n < 1)"
| "less_than_one (JStr s) = number_less_than_one (StringToNumber s)"

definition cdk_accepts_desired_count :: "jsval \<Rightarrow> bool" where
  "cdk_accepts_desired_count v = (\<not> (v \<noteq> JUndefined \<and> less_than_one v))"

text \<open>The framework, with the three checks as its sources state them.\<close>

definition cdk :: framework where
  "cdk = \<lparr> accepts_stack = cdk_accepts_stack,
           accepts_repository_name = cdk_accepts_repository_name,
           accepts_desired_count = cdk_accepts_desired_count \<rparr>"

section \<open>The construct context\<close>

text \<open>
  \<^verbatim>\<open>node.tryGetContext(key)\<close> returns the value stored under the key in the node or
  one of its ancestors, and \<^verbatim>\<open>undefined\<close> when there is none; a stack created under
  the app reads the app's context. \<^verbatim>\<open>node.setContext(key, value)\<close> stores a value;
  the script calls it before it creates a stack, where the framework accepts it.
\<close>

type_synonym "context" = "string \<rightharpoonup> jsval"

definition tryGetContext :: "context \<Rightarrow> string \<Rightarrow> jsval" where
  "tryGetContext ctx key = (case ctx key of None \<Rightarrow> JUndefined | Some v \<Rightarrow> v)"

definition setContext :: "context \<Rightarrow> string \<Rightarrow> jsval \<Rightarrow> context" where
  "setContext ctx key v = ctx(key \<mapsto> v)"

text \<open>Tags in the order \<^verbatim>\<open>Tags.of(this).add(key, value)\<close> attaches them.\<close>

type_synonym tags = "(string \<times> string) list"

text \<open>
  The first statement of each constructor, \<^verbatim>\<open>super(scope, id, props)\<close>: the base
  constructor throws for an id or properties it rejects.
\<close>

definition Stack_constructor :: "framework \<Rightarrow> string \<Rightarrow> stack_props \<Rightarrow> error + unit" where
  "Stack_constructor fw sid props =
     (if accepts_stack fw sid props then Inr () else Inl (StackRejected sid))"

section \<open>EcrStack (lib/ecr-stack.ts)\<close>

record ecr_stack =
  ecr_id :: string
  ecr_props :: stack_props
  ecr_tags :: tags
  ecr_repositoryName :: string

text \<open>The statements of the constructor after \<^verbatim>\<open>super(scope, id, props)\<close>.\<close>

definition EcrStack_body ::
  "framework \<Rightarrow> context \<Rightarrow> string \<Rightarrow> stack_props \<Rightarrow> error + ecr_stack" where
  "EcrStack_body fw scope sid props =
     (let project = tryGetContext scope ''project'';
          environment = tryGetContext scope ''environment''
      in case call_toLowerCase project of
           Inl e \<Rightarrow> Inl e
         | Inr project_lower \<Rightarrow>
             (case call_toLowerCase environment of
                Inl e \<Rightarrow> Inl e
              | Inr environment_lower \<Rightarrow>
                  (let repositoryName =
                         ToString environment @ ''-'' @ project_lower @ ''-ecr-repository''
                   in if accepts_repository_name fw repositoryName
                      then Inr \<lparr> ecr_id = sid,
                                 ecr_props = props,
                                 ecr_tags = [(''project'', project_lower),
                                             (''environment'', environment_lower)],
                                 ecr_repositoryName = repositoryName \<rparr>
                      else Inl (InvalidRepositoryName repositoryName))))"

text \<open>\<^verbatim>\<open>new EcrStack(scope, id, props)\<close>\<close>

definition EcrStack ::
  "framework \<Rightarrow> context \<Rightarrow> string \<Rightarrow> stack_props \<Rightarrow> error + ecr_stack" where
  "EcrStack fw scope sid props =
     (case Stack_constructor fw sid props of
        Inl e \<Rightarrow> Inl e
      | Inr _ \<Rightarrow> EcrStack_body fw scope sid props)"

section \<open>EcsStack (lib/ecs-stack.ts)\<close>

text \<open>
  \<^verbatim>\<open>ecs_ecrRepoName\<close> is the value handed to \<^verbatim>\<open>Repository.fromRepositoryName\<close>,
  \<^verbatim>\<open>ecs_ecrImageTag\<close> the constant \<^verbatim>\<open>ecrImageTag\<close> and \<^verbatim>\<open>ecs_imageTag\<close> its
  \<^verbatim>\<open>toString()\<close> handed to \<^verbatim>\<open>ContainerImage.fromEcrRepository\<close>,
  \<^verbatim>\<open>ecs_desiredCount\<close> the \<^verbatim>\<open>desiredCount\<close> of the Fargate service.
\<close>

record ecs_stack =
  ecs_id :: string
  ecs_props :: stack_props
  ecs_tags :: tags
  ecs_ecrRepoName :: jsval
  ecs_ecrImageTag :: jsval
  ecs_imageTag :: string
  ecs_containerName :: string
  ecs_streamPrefix :: string
  ecs_desiredCount :: jsval
  ecs_distributionComment :: string

text \<open>The statements of the constructor after \<^verbatim>\<open>super(scope, id, props)\<close>.\<close>

definition EcsStack_body ::
  "framework \<Rightarrow> context \<Rightarrow> string \<Rightarrow> stack_props \<Rightarrow> error + ecs_stack" where
  "EcsStack_body fw scope sid props =
     (let project = tryGetContext scope ''project'';
          environment = tryGetContext scope ''environment'';
          desiredCount = tryGetContext scope ''desiredCount''
      in case call_toLowerCase project of
           Inl e \<Rightarrow> Inl e
         | Inr project_lower \<Rightarrow>
             (case call_toLowerCase environment of
                Inl e \<Rightarrow> Inl e
              | Inr environment_lower \<Rightarrow>
                  (let ecrRepoName = tryGetContext scope ''ecrRepoName'';
                       ecrImageTag = js_or (tryGetContext scope ''ecrImageTag'') (JStr ''latest'')
                   in case call_toString ecrImageTag of
                        Inl e \<Rightarrow> Inl e
                      | Inr image_tag \<Rightarrow>
                          if accepts_desired_count fw (js_or desiredCount (JNum 1))
                          then Inr \<lparr> ecs_id = sid,
                                     ecs_props = props,
                                     ecs_tags = [(''project'', project_lower),
                                                 (''environment'', environment_lower)],
                                     ecs_ecrRepoName = ecrRepoName,
                                     ecs_ecrImageTag = ecrImageTag,
                                     ecs_imageTag = image_tag,
                                     ecs_containerName =
                                       toLowerCase (ToString environment @ ''-''
                                                    @ ToString project @ ''-container''),
                                     ecs_streamPrefix = project_lower,
                                     ecs_desiredCount = js_or desiredCount (JNum 1),
                                     ecs_distributionComment =
                                       ''The '' @ environment_lower
                                       @ '' Cloud Front Distribution for the '' @ project_lower
                                       @ '' service.'' \<rparr>
                          else Inl InvalidDesiredCount)))"

text \<open>\<^verbatim>\<open>new EcsStack(scope, id, props)\<close>\<close>

definition EcsStack ::
  "framework \<Rightarrow> context \<Rightarrow> string \<Rightarrow> stack_props \<Rightarrow> error + ecs_stack" where
  "EcsStack fw scope sid props =
     (case Stack_constructor fw sid props of
        Inl e \<Rightarrow> Inl e
      | Inr _ \<Rightarrow> EcsStack_body fw scope sid props)"

section \<open>ObservabilityStack\<close>

text \<open>
  \<^verbatim>\<open>obs_tagFilters\<close> are the tag filters of the resource group's query (key and
  values), \<^verbatim>\<open>obs_monitorDomain\<close> and \<^verbatim>\<open>obs_monitorName\<close> the domain and name of the RUM
  app monitor.
\<close>

record observability_stack =
  obs_id :: string
  obs_props :: stack_props
  obs_tags :: tags
  obs_groupName :: string
  obs_tagFilters :: "(string \<times> string list) list"
  obs_outputValue :: string
  obs_exportName :: string
  obs_monitorDomain :: jsval
  obs_monitorName :: string

text \<open>The statements of the constructor after \<^verbatim>\<open>super(scope, id, props)\<close>.\<close>

definition ObservabilityStack_body ::
  "context \<Rightarrow> string \<Rightarrow> stack_props \<Rightarrow> error + observability_stack" where
  "ObservabilityStack_body scope sid props =
     (let project = tryGetContext scope ''project'';
          environment = tryGetContext scope ''environment'';
          domainName = tryGetContext scope ''domainName''
      in case call_toLowerCase project of
           Inl e \<Rightarrow> Inl e
         | Inr project_lower \<Rightarrow>
             (case call_toLowerCase environment of
                Inl e \<Rightarrow> Inl e
              | Inr environment_lower \<Rightarrow>
                  Inr \<lparr> obs_id = sid,
                        obs_props = props,
                        obs_tags = [(''project'', project_lower),
                                    (''environment'', environment_lower)],
                        obs_groupName =
                          toLowerCase (ToString environment @ ''-'' @ ToString project),
                        obs_tagFilters = [(''project'', [ToString project]),
                                          (''environment'', [ToString environment])],
                        obs_outputValue =
                          toLowerCase (ToString environment @ ''-'' @ ToString project),
                        obs_exportName =
                          toLowerCase (ToString environment @ ''-'' @ ToString project
                                       @ ''-resource-group''),
                        obs_monitorDomain = js_or domainName (JStr ''localhost''),
                        obs_monitorName = project_lower \<rparr>))"

text \<open>\<^verbatim>\<open>new ObservabilityStack(scope, id, props)\<close>\<close>

definition ObservabilityStack ::
  "framework \<Rightarrow> context \<Rightarrow> string \<Rightarrow> stack_props \<Rightarrow> error + observability_stack" where
  "ObservabilityStack fw scope sid props =
     (case Stack_constructor fw sid props of
        Inl e \<Rightarrow> Inl e
      | Inr _ \<Rightarrow> ObservabilityStack_body scope sid props)"

section \<open>The app (bin script)\<close>

text \<open>The two fields of \<^verbatim>\<open>package.json\<close> the script reads.\<close>

record package_json =
  pj_name :: jsval
  pj_version :: jsval

text \<open>The constants \<^verbatim>\<open>project\<close>, \<^verbatim>\<open>version\<close> and \<^verbatim>\<open>environment\<close> of the script.\<close>

definition app_project :: "context \<Rightarrow> package_json \<Rightarrow> jsval" where
  "app_project ctx packageJson =
     (if truthy (tryGetContext ctx ''project'') then tryGetContext ctx ''project''
      else pj_name packageJson)"

definition app_version :: "context \<Rightarrow> package_json \<Rightarrow> jsval" where
  "app_version ctx packageJson =
     (if truthy (tryGetContext ctx ''version'') then tryGetContext ctx ''version''
      else pj_version packageJson)"

definition app_environment :: "context \<Rightarrow> jsval" where
  "app_environment ctx =
     (if truthy (tryGetContext ctx ''environment'') then tryGetContext ctx ''environment''
      else JStr ''dev'')"

text \<open>The identifier of a stack: \<^verbatim>\<open>`${environment}-${project}-suffix`.toLowerCase()\<close>.\<close>

definition stack_id :: "jsval \<Rightarrow> jsval \<Rightarrow> string \<Rightarrow> string" where
  "stack_id environment project suffix =
     toLowerCase (ToString environment @ ''-'' @ ToString project @ ''-'' @ suffix)"

text \<open>
  What a run of the script builds: the app's context after the three
  \<^verbatim>\<open>setContext\<close> calls, and the three stacks. An exception of a constructor ends
  the run.
\<close>

record deployment =
  dep_context :: "context"
  dep_ecr :: ecr_stack
  dep_ecs :: ecs_stack
  dep_observability :: observability_stack

definition main :: "framework \<Rightarrow> context \<Rightarrow> package_json \<Rightarrow> error + deployment" where
  "main fw ctx0 packageJson =
     (let project = app_project ctx0 packageJson;
          ctx1 = setContext ctx0 ''project'' project;
          version = app_version ctx1 packageJson;
          ctx2 = setContext ctx1 ''version'' version;
          environment = app_environment ctx2;
          app = setContext ctx2 ''environment'' environment
      in case EcrStack fw app (stack_id environment project ''ecr'')
                \<lparr> description = ''Container Registry for '' @ ToString project @ '' on ECS'' \<rparr> of
           Inl e \<Rightarrow> Inl e
         | Inr ecr \<Rightarrow>
             (case EcsStack fw app (stack_id environment project ''ecs'')
                     \<lparr> description = ''Deployment Stack for '' @ ToString project @ '' on ECS'' \<rparr> of
                Inl e \<Rightarrow> Inl e
              | Inr ecs \<Rightarrow>
                  (case ObservabilityStack fw app (stack_id environment project ''observability'')
                          \<lparr> description =
                              ''Observability Resources for '' @ ToString project @ '' on ECS'' \<rparr> of
                     Inl e \<Rightarrow> Inl e
                   | Inr obs \<Rightarrow>
                       Inr \<lparr> dep_context = app, dep_ecr = ecr, dep_ecs = ecs,
                             dep_observability = obs \<rparr>)))"

text \<open>
  The app's context after the three \<^verbatim>\<open>setContext\<close> calls of the script, written
  without the intermediate contexts.
\<close>

definition resolved_context :: "context \<Rightarrow> package_json \<Rightarrow> context" where
  "resolved_context ctx pj =
     setContext (setContext (setContext ctx ''project'' (app_project ctx pj))
                   ''version'' (app_version ctx pj))
       ''environment'' (app_environment ctx)"

section \<open>Facts about the values and the context\<close>

lemma toLowerCase_append: "toLowerCase (xs @ ys) = toLowerCase xs @ toLowerCase ys"
  by (simp add: toLowerCase_def)

lemma lower_char_fixed: "lower_char c = c \<longleftrightarrow> \<not> is_upper c"
proof
  assume h: "lower_char c = c"
  show "\<not> is_upper c"
  proof
    assume u: "is_upper c"
    with h have "char_of ((of_char c :: nat) + 32) = c" by (simp add: lower_char_def)
    then have "(of_char (char_of ((of_char c :: nat) + 32)) :: nat) = of_char c" by simp
    then have "((of_char c :: nat) + 32) mod 256 = of_char c" by simp
    with u show False by (simp add: is_upper_def)
  qed
next
  assume "\<not> is_upper c" then show "lower_char c = c" by (simp add: lower_char_def)
qed

lemma toLowerCase_fixed: "toLowerCase s = s \<longleftrightarrow> (\<forall>c \<in> set s. \<not> is_upper c)"
  by (induction s) (auto simp: toLowerCase_def lower_char_fixed)

lemma tryGetContext_setContext:
  "tryGetContext (setContext ctx k v) k' = (if k' = k then v else tryGetContext ctx k')"
  by (simp add: tryGetContext_def setContext_def)

lemma lookup_simps:
  "tryGetContext Map.empty k = JUndefined"
  "tryGetContext (c(k' \<mapsto> v)) k = (if k = k' then v else tryGetContext c k)"
  by (simp_all add: tryGetContext_def)

lemma call_toString_js_or_latest:
  "call_toString (js_or v (JStr ''latest'')) = Inr (ToString (js_or v (JStr ''latest'')))"
  by (cases v) (auto simp: js_or_def)

lemma call_toLowerCase_not_string:
  "(\<nexists>s. v = JStr s) \<Longrightarrow> call_toLowerCase v = Inl TypeError"
  by (cases v) auto

lemma call_toLowerCase_Inl: "call_toLowerCase v = Inl a \<Longrightarrow> a = TypeError"
  by (cases v) auto

lemma call_toLowerCase_Inr: "call_toLowerCase v = Inr l \<Longrightarrow> \<exists>s. v = JStr s \<and> l = toLowerCase s"
  by (cases v) auto

lemma stack_id_append:
  "stack_id environment project suffix =
     toLowerCase (ToString environment) @ ''-'' @ toLowerCase (ToString project) @ ''-''
     @ toLowerCase suffix"
  by (simp add: stack_id_def toLowerCase_append) (simp add: toLowerCase_def lower_char_def is_upper_def)

lemma lower_suffixes:
  "toLowerCase ''ecr'' = ''ecr''" "toLowerCase ''ecs'' = ''ecs''"
  "toLowerCase ''observability'' = ''observability''"
  by code_simp+

section \<open>Facts about the constructors\<close>

lemma EcrStack_body_strings:
  assumes "tryGetContext scope ''project'' = JStr p" and "tryGetContext scope ''environment'' = JStr e"
  shows "EcrStack_body fw scope sid props =
    (if accepts_repository_name fw (e @ ''-'' @ toLowerCase p @ ''-ecr-repository'')
     then Inr \<lparr> ecr_id = sid, ecr_props = props,
                ecr_tags = [(''project'', toLowerCase p), (''environment'', toLowerCase e)],
                ecr_repositoryName = e @ ''-'' @ toLowerCase p @ ''-ecr-repository'' \<rparr>
     else Inl (InvalidRepositoryName (e @ ''-'' @ toLowerCase p @ ''-ecr-repository'')))"
  using assms by (simp add: EcrStack_body_def Let_def)

lemma EcsStack_body_strings:
  assumes "tryGetContext scope ''project'' = JStr p" and "tryGetContext scope ''environment'' = JStr e"
  shows "EcsStack_body fw scope sid props =
    (if accepts_desired_count fw (js_or (tryGetContext scope ''desiredCount'') (JNum 1))
     then Inr \<lparr> ecs_id = sid, ecs_props = props,
          ecs_tags = [(''project'', toLowerCase p), (''environment'', toLowerCase e)],
          ecs_ecrRepoName = tryGetContext scope ''ecrRepoName'',
          ecs_ecrImageTag = js_or (tryGetContext scope ''ecrImageTag'') (JStr ''latest''),
          ecs_imageTag = ToString (js_or (tryGetContext scope ''ecrImageTag'') (JStr ''latest'')),
          ecs_containerName = toLowerCase e @ ''-'' @ toLowerCase p @ ''-container'',
          ecs_streamPrefix = toLowerCase p,
          ecs_desiredCount = js_or (tryGetContext scope ''desiredCount'') (JNum 1),
          ecs_distributionComment =
            ''The '' @ toLowerCase e @ '' Cloud Front Distribution for the '' @ toLowerCase p
            @ '' service.'' \<rparr>
     else Inl InvalidDesiredCount)"
  using assms
  by (simp add: EcsStack_body_def Let_def call_toString_js_or_latest toLowerCase_append)
     (simp add: toLowerCase_def lower_char_def is_upper_def)

lemma ObservabilityStack_body_strings:
  assumes "tryGetContext scope ''project'' = JStr p" and "tryGetContext scope ''environment'' = JStr e"
  shows "ObservabilityStack_body scope sid props =
    Inr \<lparr> obs_id = sid, obs_props = props,
          obs_tags = [(''project'', toLowerCase p), (''environment'', toLowerCase e)],
          obs_groupName = toLowerCase e @ ''-'' @ toLowerCase p,
          obs_tagFilters = [(''project'', [p]), (''environment'', [e])],
          obs_outputValue = toLowerCase e @ ''-'' @ toLowerCase p,
          obs_exportName = toLowerCase e @ ''-'' @ toLowerCase p @ ''-resource-group'',
          obs_monitorDomain = js_or (tryGetContext scope ''domainName'') (JStr ''localhost''),
          obs_monitorName = toLowerCase p \<rparr>"
  using assms
  by (simp add: ObservabilityStack_body_def Let_def toLowerCase_append)
     (simp add: toLowerCase_def lower_char_def is_upper_def)

lemma body_not_strings:
  assumes "(\<nexists>p. tryGetContext scope ''project'' = JStr p) \<or>
           (\<nexists>e. tryGetContext scope ''environment'' = JStr e)"
  shows "EcrStack_body fw scope sid1 props1 = Inl TypeError"
    and "EcsStack_body fw scope sid2 props2 = Inl TypeError"
    and "ObservabilityStack_body scope sid3 props3 = Inl TypeError"
proof -
  have "call_toLowerCase (tryGetContext scope ''project'') = Inl TypeError \<or>
        (\<exists>l. call_toLowerCase (tryGetContext scope ''project'') = Inr l \<and>
             call_toLowerCase (tryGetContext scope ''environment'') = Inl TypeError)"
  proof (cases "call_toLowerCase (tryGetContext scope ''project'')")
    case (Inl a)
    then show ?thesis using call_toLowerCase_Inl by blast
  next
    case (Inr l)
    then obtain p where "tryGetContext scope ''project'' = JStr p"
      using call_toLowerCase_Inr by blast
    with assms have "\<nexists>e. tryGetContext scope ''environment'' = JStr e" by simp
    then have "call_toLowerCase (tryGetContext scope ''environment'') = Inl TypeError"
      by (rule call_toLowerCase_not_string)
    with Inr show ?thesis by simp
  qed
  then show "EcrStack_body fw scope sid1 props1 = Inl TypeError"
    and "EcsStack_body fw scope sid2 props2 = Inl TypeError"
    and "ObservabilityStack_body scope sid3 props3 = Inl TypeError"
    by (auto simp: EcrStack_body_def EcsStack_body_def ObservabilityStack_body_def Let_def)
qed

lemma constructor_unfold:
  "EcrStack fw scope sid props =
     (if accepts_stack fw sid props then EcrStack_body fw scope sid props
      else Inl (StackRejected sid))"
  "EcsStack fw scope sid props =
     (if accepts_stack fw sid props then EcsStack_body fw scope sid props
      else Inl (StackRejected sid))"
  "ObservabilityStack fw scope sid props =
     (if accepts_stack fw sid props then ObservabilityStack_body scope sid props
      else Inl (StackRejected sid))"
  by (simp_all add: EcrStack_def EcsStack_def ObservabilityStack_def Stack_constructor_def)

lemma strings_or_not:
  obtains (strings) p e where "tryGetContext scope ''project'' = JStr p"
      and "tryGetContext scope ''environment'' = JStr e"
  | (other) "(\<nexists>p. tryGetContext scope ''project'' = JStr p) \<or>
             (\<nexists>e. tryGetContext scope ''environment'' = JStr e)"
  by blast

lemma EcrStack_Inr:
  assumes "EcrStack fw scope sid props = Inr r"
  obtains p e where "tryGetContext scope ''project'' = JStr p"
    and "tryGetContext scope ''environment'' = JStr e"
    and "accepts_stack fw sid props"
    and "accepts_repository_name fw (e @ ''-'' @ toLowerCase p @ ''-ecr-repository'')"
    and "r = \<lparr> ecr_id = sid, ecr_props = props,
               ecr_tags = [(''project'', toLowerCase p), (''environment'', toLowerCase e)],
               ecr_repositoryName = e @ ''-'' @ toLowerCase p @ ''-ecr-repository'' \<rparr>"
proof (cases scope rule: strings_or_not)
  case (strings p e)
  with assms that [OF strings] show ?thesis
    by (auto simp: constructor_unfold EcrStack_body_strings split: if_splits)
next
  case other
  with assms show ?thesis
    by (simp add: constructor_unfold body_not_strings split: if_splits)
qed



lemma constructors_no_ConfigurationError:
  "EcrStack fw scope sid props \<noteq> Inl (ConfigurationError f)"
  "EcsStack fw scope sid' props' \<noteq> Inl (ConfigurationError f)"
  "ObservabilityStack fw scope sid'' props'' \<noteq> Inl (ConfigurationError f)"
proof -
  show "EcrStack fw scope sid props \<noteq> Inl (ConfigurationError f)"
    by (cases scope rule: strings_or_not)
       (simp_all add: constructor_unfold EcrStack_body_strings body_not_strings)
  show "EcsStack fw scope sid' props' \<noteq> Inl (ConfigurationError f)"
    by (cases scope rule: strings_or_not)
       (simp_all add: constructor_unfold EcsStack_body_strings body_not_strings)
  show "ObservabilityStack fw scope sid'' props'' \<noteq> Inl (ConfigurationError f)"
    by (cases scope rule: strings_or_not)
       (simp_all add: constructor_unfold ObservabilityStack_body_strings body_not_strings)
qed

lemma constructors_depend_on_keys:
  assumes "\<forall>k \<in> {''project'', ''environment'', ''desiredCount'', ''ecrRepoName'',
                   ''ecrImageTag'', ''domainName''}. tryGetContext scope k = tryGetContext scope' k"
  shows "EcrStack fw scope sid props = EcrStack fw scope' sid props"
    and "EcsStack fw scope sid2 props2 = EcsStack fw scope' sid2 props2"
    and "ObservabilityStack fw scope sid3 props3 = ObservabilityStack fw scope' sid3 props3"
proof -
  have "EcrStack_body fw scope sid props = EcrStack_body fw scope' sid props"
    and "EcsStack_body fw scope sid2 props2 = EcsStack_body fw scope' sid2 props2"
    and "ObservabilityStack_body scope sid3 props3 = ObservabilityStack_body scope' sid3 props3"
    using assms
    by (simp_all add: EcrStack_body_def EcsStack_body_def ObservabilityStack_body_def
        cong del: sum.case_cong_weak)
  then show "EcrStack fw scope sid props = EcrStack fw scope' sid props"
    and "EcsStack fw scope sid2 props2 = EcsStack fw scope' sid2 props2"
    and "ObservabilityStack fw scope sid3 props3 = ObservabilityStack fw scope' sid3 props3"
    by (simp_all add: constructor_unfold)
qed

section \<open>Facts about a run of the script\<close>

lemma app_version_setContext_project [simp]:
  "app_version (setContext ctx ''project'' v) pj = app_version ctx pj"
  by (simp add: app_version_def tryGetContext_setContext)

lemma app_environment_setContext_other [simp]:
  "app_environment (setContext (setContext ctx ''project'' v) ''version'' w) = app_environment ctx"
  by (simp add: app_environment_def tryGetContext_setContext)

lemma main_unfold:
  "main fw ctx pj =
     (case EcrStack fw (resolved_context ctx pj)
             (stack_id (app_environment ctx) (app_project ctx pj) ''ecr'')
             \<lparr> description =
                 ''Container Registry for '' @ ToString (app_project ctx pj) @ '' on ECS'' \<rparr> of
        Inl e \<Rightarrow> Inl e
      | Inr ecr \<Rightarrow>
          (case EcsStack fw (resolved_context ctx pj)
                  (stack_id (app_environment ctx) (app_project ctx pj) ''ecs'')
                  \<lparr> description =
                      ''Deployment Stack for '' @ ToString (app_project ctx pj) @ '' on ECS'' \<rparr> of
             Inl e \<Rightarrow> Inl e
           | Inr ecs \<Rightarrow>
               (case ObservabilityStack fw (resolved_context ctx pj)
                       (stack_id (app_environment ctx) (app_project ctx pj) ''observability'')
                       \<lparr> description =
                           ''Observability Resources for '' @ ToString (app_project ctx pj)
                           @ '' on ECS'' \<rparr> of
                  Inl e \<Rightarrow> Inl e
                | Inr obs \<Rightarrow>
                    Inr \<lparr> dep_context = resolved_context ctx pj, dep_ecr = ecr, dep_ecs = ecs,
                          dep_observability = obs \<rparr>)))"
  by (simp add: main_def Let_def resolved_context_def cong del: sum.case_cong_weak)

lemma resolved_context_lookup:
  "tryGetContext (resolved_context ctx pj) k =
     (if k = ''environment'' then app_environment ctx
      else if k = ''version'' then app_version ctx pj
      else if k = ''project'' then app_project ctx pj
      else tryGetContext ctx k)"
  by (simp add: resolved_context_def tryGetContext_setContext)

lemma app_project_resolved:
  "app_project (resolved_context ctx pj) pj = app_project ctx pj"
  by (simp add: app_project_def resolved_context_lookup)

lemma app_version_resolved:
  "app_version (resolved_context ctx pj) pj = app_version ctx pj"
  by (simp add: app_version_def resolved_context_lookup)

lemma app_environment_resolved:
  "app_environment (resolved_context ctx pj) = app_environment ctx"
  by (simp add: app_environment_def resolved_context_lookup)

lemma resolved_context_idem:
  "resolved_context (resolved_context ctx pj) pj = resolved_context ctx pj"
proof -
  have "resolved_context (resolved_context ctx pj) pj =
        setContext (setContext (setContext (resolved_context ctx pj) ''project'' (app_project ctx pj))
                   ''version'' (app_version ctx pj)) ''environment'' (app_environment ctx)"
    by (subst resolved_context_def)
       (simp only: app_project_resolved app_version_resolved app_environment_resolved)
  also have "\<dots> = resolved_context ctx pj"
    by (rule ext) (simp add: resolved_context_def setContext_def)
  finally show ?thesis .
qed

lemma main_resolved: "main fw (resolved_context ctx pj) pj = main fw ctx pj"
  by (simp only: main_unfold [of fw "resolved_context ctx pj"] main_unfold [of fw ctx]
      resolved_context_idem app_project_resolved app_environment_resolved)

lemma main_Inr:
  assumes "main fw ctx pj = Inr d"
  obtains p e where "app_project ctx pj = JStr p" and "app_environment ctx = JStr e"
    and "accepts_stack fw (stack_id (JStr e) (JStr p) ''ecr'')
           \<lparr> description = ''Container Registry for '' @ p @ '' on ECS'' \<rparr>"
    and "accepts_stack fw (stack_id (JStr e) (JStr p) ''ecs'')
           \<lparr> description = ''Deployment Stack for '' @ p @ '' on ECS'' \<rparr>"
    and "accepts_stack fw (stack_id (JStr e) (JStr p) ''observability'')
           \<lparr> description = ''Observability Resources for '' @ p @ '' on ECS'' \<rparr>"
    and "accepts_repository_name fw (e @ ''-'' @ toLowerCase p @ ''-ecr-repository'')"
    and "accepts_desired_count fw (js_or (tryGetContext ctx ''desiredCount'') (JNum 1))"
    and "d = \<lparr> dep_context = resolved_context ctx pj,
          dep_ecr =
            \<lparr> ecr_id = stack_id (JStr e) (JStr p) ''ecr'',
              ecr_props = \<lparr> description = ''Container Registry for '' @ p @ '' on ECS'' \<rparr>,
              ecr_tags = [(''project'', toLowerCase p), (''environment'', toLowerCase e)],
              ecr_repositoryName = e @ ''-'' @ toLowerCase p @ ''-ecr-repository'' \<rparr>,
          dep_ecs =
            \<lparr> ecs_id = stack_id (JStr e) (JStr p) ''ecs'',
              ecs_props = \<lparr> description = ''Deployment Stack for '' @ p @ '' on ECS'' \<rparr>,
              ecs_tags = [(''project'', toLowerCase p), (''environment'', toLowerCase e)],
              ecs_ecrRepoName = tryGetContext ctx ''ecrRepoName'',
              ecs_ecrImageTag = js_or (tryGetContext ctx ''ecrImageTag'') (JStr ''latest''),
              ecs_imageTag = ToString (js_or (tryGetContext ctx ''ecrImageTag'') (JStr ''latest'')),
              ecs_containerName = toLowerCase e @ ''-'' @ toLowerCase p @ ''-container'',
              ecs_streamPrefix = toLowerCase p,
              ecs_desiredCount = js_or (tryGetContext ctx ''desiredCount'') (JNum 1),
              ecs_distributionComment =
                ''The '' @ toLowerCase e @ '' Cloud Front Distribution for the '' @ toLowerCase p
                @ '' service.'' \<rparr>,
          dep_observability =
            \<lparr> obs_id = stack_id (JStr e) (JStr p) ''observability'',
              obs_props = \<lparr> description = ''Observability Resources for '' @ p @ '' on ECS'' \<rparr>,
              obs_tags = [(''project'', toLowerCase p), (''environment'', toLowerCase e)],
              obs_groupName = toLowerCase e @ ''-'' @ toLowerCase p,
              obs_tagFilters = [(''project'', [p]), (''environment'', [e])],
              obs_outputValue = toLowerCase e @ ''-'' @ toLowerCase p,
              obs_exportName = toLowerCase e @ ''-'' @ toLowerCase p @ ''-resource-group'',
              obs_monitorDomain = js_or (tryGetContext ctx ''domainName'') (JStr ''localhost''),
              obs_monitorName = toLowerCase p \<rparr> \<rparr>"
proof -
  let ?c = "resolved_context ctx pj"
  from assms obtain ecr ecs obs where
    ecr: "EcrStack fw ?c (stack_id (app_environment ctx) (app_project ctx pj) ''ecr'')
            \<lparr> description =
                ''Container Registry for '' @ ToString (app_project ctx pj) @ '' on ECS'' \<rparr> = Inr ecr"
    and ecs: "EcsStack fw ?c (stack_id (app_environment ctx) (app_project ctx pj) ''ecs'')
            \<lparr> description =
                ''Deployment Stack for '' @ ToString (app_project ctx pj) @ '' on ECS'' \<rparr> = Inr ecs"
    and obs: "ObservabilityStack fw ?c
            (stack_id (app_environment ctx) (app_project ctx pj) ''observability'')
            \<lparr> description =
                ''Observability Resources for '' @ ToString (app_project ctx pj) @ '' on ECS'' \<rparr>
            = Inr obs"
    and d: "d = \<lparr> dep_context = ?c, dep_ecr = ecr, dep_ecs = ecs, dep_observability = obs \<rparr>"
    unfolding main_unfold by (auto split: sum.splits)
  from ecr obtain p e where p: "app_project ctx pj = JStr p" and e: "app_environment ctx = JStr e"
    by (rule EcrStack_Inr) (simp add: resolved_context_lookup)
  have cp: "tryGetContext ?c ''project'' = JStr p" and ce: "tryGetContext ?c ''environment'' = JStr e"
    using p e by (simp_all add: resolved_context_lookup)
  show ?thesis
  proof (rule that [OF p e])
    show "accepts_stack fw (stack_id (JStr e) (JStr p) ''ecr'')
           \<lparr> description = ''Container Registry for '' @ p @ '' on ECS'' \<rparr>"
      using ecr p e by (simp add: constructor_unfold split: if_splits)
    show "accepts_stack fw (stack_id (JStr e) (JStr p) ''ecs'')
           \<lparr> description = ''Deployment Stack for '' @ p @ '' on ECS'' \<rparr>"
      using ecs p e by (simp add: constructor_unfold split: if_splits)
    show "accepts_stack fw (stack_id (JStr e) (JStr p) ''observability'')
           \<lparr> description = ''Observability Resources for '' @ p @ '' on ECS'' \<rparr>"
      using obs p e by (simp add: constructor_unfold split: if_splits)
    show "accepts_repository_name fw (e @ ''-'' @ toLowerCase p @ ''-ecr-repository'')"
      using ecr by (simp add: constructor_unfold EcrStack_body_strings [OF cp ce] split: if_splits)
    show "accepts_desired_count fw (js_or (tryGetContext ctx ''desiredCount'') (JNum 1))"
      using ecs
      by (simp add: constructor_unfold EcsStack_body_strings [OF cp ce] resolved_context_lookup
          split: if_splits)
    show "d = \<lparr> dep_context = resolved_context ctx pj,
          dep_ecr =
            \<lparr> ecr_id = stack_id (JStr e) (JStr p) ''ecr'',
              ecr_props = \<lparr> description = ''Container Registry for '' @ p @ '' on ECS'' \<rparr>,
              ecr_tags = [(''project'', toLowerCase p), (''environment'', toLowerCase e)],
              ecr_repositoryName = e @ ''-'' @ toLowerCase p @ ''-ecr-repository'' \<rparr>,
          dep_ecs =
            \<lparr> ecs_id = stack_id (JStr e) (JStr p) ''ecs'',
              ecs_props = \<lparr> description = ''Deployment Stack for '' @ p @ '' on ECS'' \<rparr>,
              ecs_tags = [(''project'', toLowerCase p), (''environment'', toLowerCase e)],
              ecs_ecrRepoName = tryGetContext ctx ''ecrRepoName'',
              ecs_ecrImageTag = js_or (tryGetContext ctx ''ecrImageTag'') (JStr ''latest''),
              ecs_imageTag = ToString (js_or (tryGetContext ctx ''ecrImageTag'') (JStr ''latest'')),
              ecs_containerName = toLowerCase e @ ''-'' @ toLowerCase p @ ''-container'',
              ecs_streamPrefix = toLowerCase p,
              ecs_desiredCount = js_or (tryGetContext ctx ''desiredCount'') (JNum 1),
              ecs_distributionComment =
                ''The '' @ toLowerCase e @ '' Cloud Front Distribution for the '' @ toLowerCase p
                @ '' service.'' \<rparr>,
          dep_observability =
            \<lparr> obs_id = stack_id (JStr e) (JStr p) ''observability'',
              obs_props = \<lparr> description = ''Observability Resources for '' @ p @ '' on ECS'' \<rparr>,
              obs_tags = [(''project'', toLowerCase p), (''environment'', toLowerCase e)],
              obs_groupName = toLowerCase e @ ''-'' @ toLowerCase p,
              obs_tagFilters = [(''project'', [p]), (''environment'', [e])],
              obs_outputValue = toLowerCase e @ ''-'' @ toLowerCase p,
              obs_exportName = toLowerCase e @ ''-'' @ toLowerCase p @ ''-resource-group'',
              obs_monitorDomain = js_or (tryGetContext ctx ''domainName'') (JStr ''localhost''),
              obs_monitorName = toLowerCase p \<rparr> \<rparr>"
      using ecr ecs obs p e unfolding d
      by (simp add: constructor_unfold EcrStack_body_strings [OF cp ce]
          EcsStack_body_strings [OF cp ce] ObservabilityStack_body_strings [OF cp ce]
          resolved_context_lookup split: if_splits)
  qed
qed

lemma main_returns:
  assumes "app_project ctx pj = JStr p" and "app_environment ctx = JStr e"
    and "accepts_stack fw (stack_id (JStr e) (JStr p) ''ecr'')
           \<lparr> description = ''Container Registry for '' @ p @ '' on ECS'' \<rparr>"
    and "accepts_stack fw (stack_id (JStr e) (JStr p) ''ecs'')
           \<lparr> description = ''Deployment Stack for '' @ p @ '' on ECS'' \<rparr>"
    and "accepts_stack fw (stack_id (JStr e) (JStr p) ''observability'')
           \<lparr> description = ''Observability Resources for '' @ p @ '' on ECS'' \<rparr>"
    and "accepts_repository_name fw (e @ ''-'' @ toLowerCase p @ ''-ecr-repository'')"
    and "accepts_desired_count fw (js_or (tryGetContext ctx ''desiredCount'') (JNum 1))"
  shows "\<exists>d. main fw ctx pj = Inr d"
proof -
  let ?c = "resolved_context ctx pj"
  have cp: "tryGetContext ?c ''project'' = JStr p" and ce: "tryGetContext ?c ''environment'' = JStr e"
    using assms(1,2) by (simp_all add: resolved_context_lookup)
  show ?thesis
    unfolding main_unfold
    using assms
    by (simp add: constructor_unfold EcrStack_body_strings [OF cp ce]
        EcsStack_body_strings [OF cp ce] ObservabilityStack_body_strings [OF cp ce]
        resolved_context_lookup)
qed

lemma main_no_ConfigurationError: "main fw ctx pj \<noteq> Inl (ConfigurationError f)"
  unfolding main_unfold
  using constructors_no_ConfigurationError [of fw "resolved_context ctx pj" _ _ f]
  by (auto split: sum.splits)

lemma main_depends_on_keys:
  assumes "\<forall>k \<in> {''project'', ''version'', ''environment'', ''desiredCount'', ''ecrRepoName'',
                   ''ecrImageTag'', ''domainName''}. ctx k = ctx' k"
  shows "map_sum id (\<lambda>d. (tryGetContext (dep_context d) ''project'',
                           tryGetContext (dep_context d) ''version'',
                           tryGetContext (dep_context d) ''environment'',
                           dep_ecr d, dep_ecs d, dep_observability d)) (main fw ctx pj) =
         map_sum id (\<lambda>d. (tryGetContext (dep_context d) ''project'',
                           tryGetContext (dep_context d) ''version'',
                           tryGetContext (dep_context d) ''environment'',
                           dep_ecr d, dep_ecs d, dep_observability d)) (main fw ctx' pj)"
proof -
  have k: "tryGetContext ctx ''project'' = tryGetContext ctx' ''project''"
    "tryGetContext ctx ''version'' = tryGetContext ctx' ''version''"
    "tryGetContext ctx ''environment'' = tryGetContext ctx' ''environment''"
    "tryGetContext ctx ''desiredCount'' = tryGetContext ctx' ''desiredCount''"
    "tryGetContext ctx ''ecrRepoName'' = tryGetContext ctx' ''ecrRepoName''"
    "tryGetContext ctx ''ecrImageTag'' = tryGetContext ctx' ''ecrImageTag''"
    "tryGetContext ctx ''domainName'' = tryGetContext ctx' ''domainName''"
    using assms by (simp_all add: tryGetContext_def)
  have a: "app_project ctx pj = app_project ctx' pj" "app_version ctx pj = app_version ctx' pj"
    "app_environment ctx = app_environment ctx'"
    by (simp_all add: app_project_def app_version_def app_environment_def k)
  have r: "\<forall>k \<in> {''project'', ''environment'', ''desiredCount'', ''ecrRepoName'',
                   ''ecrImageTag'', ''domainName''}.
             tryGetContext (resolved_context ctx pj) k = tryGetContext (resolved_context ctx' pj) k"
    by (simp add: resolved_context_lookup k a)
  have l: "tryGetContext (resolved_context ctx pj) q = tryGetContext (resolved_context ctx' pj) q"
    if "q \<in> {''project'', ''version'', ''environment''}" for q
    using that by (auto simp add: resolved_context_lookup a)
  show ?thesis
    unfolding main_unfold [of fw ctx] main_unfold [of fw ctx']
      constructors_depend_on_keys [OF r] a
    by (simp add: l a split: sum.splits)
qed

section \<open>The framework's checks at the inputs of the instances\<close>

lemma cdk_simps:
  "accepts_stack cdk = cdk_accepts_stack"
  "accepts_repository_name cdk = cdk_accepts_repository_name"
  "accepts_desired_count cdk = cdk_accepts_desired_count"
  by (simp_all add: cdk_def)

lemma cdk_accepts_default_count: "accepts_desired_count cdk (JNum 1)"
  by (simp add: cdk_simps cdk_accepts_desired_count_def)

lemma cdk_accepts_three: "accepts_desired_count cdk (JNum 3)"
  by (simp add: cdk_simps cdk_accepts_desired_count_def)

lemma stack_ids_dev_svc:
  "stack_id (JStr ''dev'') (JStr ''svc'') ''ecr'' = ''dev-svc-ecr''"
  "stack_id (JStr ''dev'') (JStr ''svc'') ''ecs'' = ''dev-svc-ecs''"
  "stack_id (JStr ''dev'') (JStr ''svc'') ''observability'' = ''dev-svc-observability''"
  by code_simp+

lemma cdk_accepts_dev_svc_ids:
  "cdk_accepts_stack_id ''dev-svc-ecr''"
  "cdk_accepts_stack_id ''dev-svc-ecs''"
  "cdk_accepts_stack_id ''dev-svc-observability''"
  "cdk_accepts_repository_name ''dev-svc-ecr-repository''"
  by code_simp+

lemma cdk_accepts_dev_svc:
  "length (description q) \<le> 512 \<Longrightarrow> accepts_stack cdk ''dev-svc-ecr'' q"
  "length (description q) \<le> 512 \<Longrightarrow> accepts_stack cdk ''dev-svc-ecs'' q"
  "length (description q) \<le> 512 \<Longrightarrow> accepts_stack cdk ''dev-svc-observability'' q"
  "accepts_repository_name cdk ''dev-svc-ecr-repository''"
  by (simp_all add: cdk_simps cdk_accepts_stack_def cdk_accepts_dev_svc_ids)

lemma lower_svc: "toLowerCase ''svc'' = ''svc''" "toLowerCase ''dev'' = ''dev''"
  by code_simp+

text \<open>
  A run under the framework's checks with the project \<^verbatim>\<open>"svc"\<close> and the environment
  \<^verbatim>\<open>"dev"\<close> returns when the desired count is accepted; likewise with the project
  \<^verbatim>\<open>"Shop"\<close> and the environment \<^verbatim>\<open>"prod"\<close>.
\<close>

lemma main_cdk_dev_svc:
  assumes "app_project ctx pj = JStr ''svc''" and "app_environment ctx = JStr ''dev''"
    and "accepts_desired_count cdk (js_or (tryGetContext ctx ''desiredCount'') (JNum 1))"
  shows "\<exists>d. main cdk ctx pj = Inr d"
  by (rule main_returns [OF assms(1,2)])
     (simp_all add: stack_ids_dev_svc cdk_accepts_dev_svc lower_svc assms(3))

lemma stack_ids_prod_shop:
  "stack_id (JStr ''prod'') (JStr ''Shop'') ''ecr'' = ''prod-shop-ecr''"
  "stack_id (JStr ''prod'') (JStr ''Shop'') ''ecs'' = ''prod-shop-ecs''"
  "stack_id (JStr ''prod'') (JStr ''Shop'') ''observability'' = ''prod-shop-observability''"
  by code_simp+

lemma cdk_accepts_prod_shop_ids:
  "cdk_accepts_stack_id ''prod-shop-ecr''"
  "cdk_accepts_stack_id ''prod-shop-ecs''"
  "cdk_accepts_stack_id ''prod-shop-observability''"
  "cdk_accepts_repository_name ''prod-shop-ecr-repository''"
  by code_simp+

lemma cdk_accepts_prod_shop:
  "length (description q) \<le> 512 \<Longrightarrow> accepts_stack cdk ''prod-shop-ecr'' q"
  "length (description q) \<le> 512 \<Longrightarrow> accepts_stack cdk ''prod-shop-ecs'' q"
  "length (description q) \<le> 512 \<Longrightarrow> accepts_stack cdk ''prod-shop-observability'' q"
  "accepts_repository_name cdk ''prod-shop-ecr-repository''"
  by (simp_all add: cdk_simps cdk_accepts_stack_def cdk_accepts_prod_shop_ids)

lemma lower_shop_prod:
  "toLowerCase ''Shop'' = ''shop''" "toLowerCase ''prod'' = ''prod''"
  by code_simp+

lemma main_cdk_prod_shop:
  assumes "app_project ctx pj = JStr ''Shop''" and "app_environment ctx = JStr ''prod''"
    and "accepts_desired_count cdk (js_or (tryGetContext ctx ''desiredCount'') (JNum 1))"
  shows "\<exists>d. main cdk ctx pj = Inr d"
  by (rule main_returns [OF assms(1,2)])
     (simp_all add: stack_ids_prod_shop cdk_accepts_prod_shop lower_shop_prod assms(3))

lemma stack_ids_dev_myapp:
  "stack_id (JStr ''dev'') (JStr ''MyApp'') ''ecr'' = ''dev-myapp-ecr''"
  "stack_id (JStr ''dev'') (JStr ''MyApp'') ''ecs'' = ''dev-myapp-ecs''"
  "stack_id (JStr ''dev'') (JStr ''MyApp'') ''observability'' = ''dev-myapp-observability''"
  "stack_id (JStr ''dev'') (JStr ''Shop'') ''ecr'' = ''dev-shop-ecr''"
  "stack_id (JStr ''dev'') (JStr ''Shop'') ''ecs'' = ''dev-shop-ecs''"
  "stack_id (JStr ''dev'') (JStr ''Shop'') ''observability'' = ''dev-shop-observability''"
  by code_simp+

lemma cdk_accepts_dev_myapp_ids:
  "cdk_accepts_stack_id ''dev-myapp-ecr''"
  "cdk_accepts_stack_id ''dev-myapp-ecs''"
  "cdk_accepts_stack_id ''dev-myapp-observability''"
  "cdk_accepts_stack_id ''dev-shop-ecr''"
  "cdk_accepts_stack_id ''dev-shop-ecs''"
  "cdk_accepts_stack_id ''dev-shop-observability''"
  "cdk_accepts_repository_name ''dev-myapp-ecr-repository''"
  "cdk_accepts_repository_name ''dev-shop-ecr-repository''"
  by code_simp+

lemma cdk_accepts_dev_myapp:
  "length (description q) \<le> 512 \<Longrightarrow> accepts_stack cdk ''dev-myapp-ecr'' q"
  "length (description q) \<le> 512 \<Longrightarrow> accepts_stack cdk ''dev-myapp-ecs'' q"
  "length (description q) \<le> 512 \<Longrightarrow> accepts_stack cdk ''dev-myapp-observability'' q"
  "length (description q) \<le> 512 \<Longrightarrow> accepts_stack cdk ''dev-shop-ecr'' q"
  "length (description q) \<le> 512 \<Longrightarrow> accepts_stack cdk ''dev-shop-ecs'' q"
  "length (description q) \<le> 512 \<Longrightarrow> accepts_stack cdk ''dev-shop-observability'' q"
  "accepts_repository_name cdk ''dev-myapp-ecr-repository''"
  "accepts_repository_name cdk ''dev-shop-ecr-repository''"
  by (simp_all add: cdk_simps cdk_accepts_stack_def cdk_accepts_dev_myapp_ids)

lemma lower_myapp: "toLowerCase ''MyApp'' = ''myapp''"
  by code_simp

section \<open>Validation and defaults\<close>

text \<open>
  Claim C1, at the input the specification names: with the override
  \<^verbatim>\<open>ecrRepoName = "badname"\<close> (no namespace separator) and the manifest
  \<^verbatim>\<open>{name: "svc", version: "1.0.0"}\<close> the run raises nothing and the name reaches the
  repository lookup unchanged.
\<close>

theorem C1_badname_counterexample:
  "map_sum id ecs_ecrRepoName (map_sum id dep_ecs
     (main cdk [''ecrRepoName'' \<mapsto> JStr ''badname'']
           \<lparr> pj_name = JStr ''svc'', pj_version = JStr ''1.0.0'' \<rparr>)) = Inr (JStr ''badname'')"
proof -
  let ?c = "[''ecrRepoName'' \<mapsto> JStr ''badname'']"
  let ?pj = "\<lparr> pj_name = JStr ''svc'', pj_version = JStr ''1.0.0'' \<rparr>"
  have "\<exists>d. main cdk ?c ?pj = Inr d"
    by (rule main_cdk_dev_svc)
       (simp_all add: app_project_def app_environment_def lookup_simps js_or_def
          cdk_accepts_default_count)
  then obtain d where d: "main cdk ?c ?pj = Inr d" ..
  then have "ecs_ecrRepoName (dep_ecs d) = JStr ''badname''"
    by (rule main_Inr) (simp add: lookup_simps)
  with d show ?thesis by simp
qed

text \<open>
  Claim C1, as the code has it: no run ends in a \<^verbatim>\<open>ConfigurationError\<close>, under any
  checks of the framework, and the repository name of every run that returns is the
  \<^verbatim>\<open>ecrRepoName\<close> context value as given: the code does not look for a separator in
  it.
\<close>

theorem C1_no_configuration_error:
  "(\<forall>f. main fw ctx pj \<noteq> Inl (ConfigurationError f)) \<and>
   (\<forall>d. main fw ctx pj = Inr d \<longrightarrow>
        ecs_ecrRepoName (dep_ecs d) = tryGetContext ctx ''ecrRepoName'')"
proof (intro conjI allI impI)
  fix f
  show "main fw ctx pj \<noteq> Inl (ConfigurationError f)"
    by (rule main_no_ConfigurationError)
next
  fix d
  assume "main fw ctx pj = Inr d"
  then show "ecs_ecrRepoName (dep_ecs d) = tryGetContext ctx ''ecrRepoName''"
    by (rule main_Inr) simp
qed

text \<open>
  An instance: the override \<^verbatim>\<open>"badname"\<close> with the manifest
  \<^verbatim>\<open>{name: "svc", version: "1.0.0"}\<close>, under the framework's checks.
\<close>

theorem C1_no_configuration_error_witness:
  "\<exists>d. main cdk [''ecrRepoName'' \<mapsto> JStr ''badname'']
              \<lparr> pj_name = JStr ''svc'', pj_version = JStr ''1.0.0'' \<rparr> = Inr d \<and>
       ecs_ecrRepoName (dep_ecs d) = JStr ''badname''"
proof -
  let ?c = "[''ecrRepoName'' \<mapsto> JStr ''badname'']"
  let ?pj = "\<lparr> pj_name = JStr ''svc'', pj_version = JStr ''1.0.0'' \<rparr>"
  have "\<exists>d. main cdk ?c ?pj = Inr d"
    by (rule main_cdk_dev_svc)
       (simp_all add: app_project_def app_environment_def lookup_simps js_or_def
          cdk_accepts_default_count)
  then obtain d where d: "main cdk ?c ?pj = Inr d" ..
  with C1_no_configuration_error [of cdk ?c ?pj]
  have "ecs_ecrRepoName (dep_ecs d) = tryGetContext ?c ''ecrRepoName''" by blast
  with d show ?thesis by (simp add: lookup_simps)
qed

text \<open>
  Claim C2, evaluated on the code: with an empty context and the manifest
  \<^verbatim>\<open>{name: "svc", version: "1.0.0"}\<close> the run resolves the environment \<^verbatim>\<open>"dev"\<close>, the
  image tag \<^verbatim>\<open>"latest"\<close>, the monitored domain \<^verbatim>\<open>"localhost"\<close> and the desired count
  1, while the repository name handed to the lookup is \<^verbatim>\<open>undefined\<close>: the constructor
  gives \<^verbatim>\<open>ecrRepoName\<close> no default, where the README documents \<^verbatim>\<open>nginx/nginx\<close>.
\<close>

theorem C2_defaults_without_overrides:
  "\<exists>d. main cdk Map.empty \<lparr> pj_name = JStr ''svc'', pj_version = JStr ''1.0.0'' \<rparr> = Inr d \<and>
       tryGetContext (dep_context d) ''environment'' = JStr ''dev'' \<and>
       ecs_ecrRepoName (dep_ecs d) = JUndefined \<and>
       ecs_ecrImageTag (dep_ecs d) = JStr ''latest'' \<and>
       ecs_imageTag (dep_ecs d) = ''latest'' \<and>
       obs_monitorDomain (dep_observability d) = JStr ''localhost'' \<and>
       ecs_desiredCount (dep_ecs d) = JNum 1"
proof -
  let ?pj = "\<lparr> pj_name = JStr ''svc'', pj_version = JStr ''1.0.0'' \<rparr>"
  have e: "app_environment Map.empty = JStr ''dev''"
    by (simp add: app_environment_def lookup_simps)
  have "\<exists>d. main cdk Map.empty ?pj = Inr d"
    by (rule main_cdk_dev_svc)
       (simp_all add: app_project_def e lookup_simps js_or_def cdk_accepts_default_count)
  then obtain d where d: "main cdk Map.empty ?pj = Inr d" ..
  then have "tryGetContext (dep_context d) ''environment'' = JStr ''dev'' \<and>
       ecs_ecrRepoName (dep_ecs d) = JUndefined \<and>
       ecs_ecrImageTag (dep_ecs d) = JStr ''latest'' \<and>
       ecs_imageTag (dep_ecs d) = ''latest'' \<and>
       obs_monitorDomain (dep_observability d) = JStr ''localhost'' \<and>
       ecs_desiredCount (dep_ecs d) = JNum 1"
    by (rule main_Inr) (simp add: resolved_context_lookup e lookup_simps js_or_def)
  with d show ?thesis by blast
qed

text \<open>
  Claim C3 at the override 0: \<^verbatim>\<open>desiredCount || 1\<close> takes the default for the falsy 0,
  so the desired count of the service is 1.
\<close>

theorem C3_zero_override_counterexample:
  "map_sum id ecs_desiredCount (map_sum id dep_ecs
     (main cdk [''desiredCount'' \<mapsto> JNum 0]
           \<lparr> pj_name = JStr ''svc'', pj_version = JStr ''1.0.0'' \<rparr>)) = Inr (JNum 1)"
proof -
  let ?c = "[''desiredCount'' \<mapsto> JNum 0]"
  let ?pj = "\<lparr> pj_name = JStr ''svc'', pj_version = JStr ''1.0.0'' \<rparr>"
  have "\<exists>d. main cdk ?c ?pj = Inr d"
    by (rule main_cdk_dev_svc)
       (simp_all add: app_project_def app_environment_def lookup_simps js_or_def
          cdk_accepts_default_count)
  then obtain d where d: "main cdk ?c ?pj = Inr d" ..
  then have "ecs_desiredCount (dep_ecs d) = JNum 1"
    by (rule main_Inr) (simp add: lookup_simps js_or_def)
  with d show ?thesis by simp
qed

text \<open>
  Claim C3, as the code has it: in every run that returns, the desired count is 1 where
  the context has no \<^verbatim>\<open>desiredCount\<close>, and for an integer override \<open>n \<ge> 0\<close> it is
  \<open>n\<close> when \<open>n\<close> is not zero and 1 when \<open>n\<close> is zero.
\<close>

theorem C3_desired_count_nonzero_or_one:
  assumes "main fw ctx pj = Inr d"
  shows "(ctx ''desiredCount'' = None \<longrightarrow> ecs_desiredCount (dep_ecs d) = JNum 1) \<and>
         (\<forall>n. ctx ''desiredCount'' = Some (JNum n) \<and> 0 \<le> sint n \<longrightarrow>
                ecs_desiredCount (dep_ecs d) = JNum (if n = 0 then 1 else n))"
  using assms by (rule main_Inr) (simp add: js_or_def tryGetContext_def)

text \<open>
  Instances, under the framework's checks: the overrides 3 and 0, and no override.
\<close>

theorem C3_desired_count_nonzero_or_one_witness:
  "(\<exists>d. main cdk [''desiredCount'' \<mapsto> JNum 3] \<lparr> pj_name = JStr ''svc'', pj_version = JStr ''1.0.0'' \<rparr> = Inr d \<and>
        ecs_desiredCount (dep_ecs d) = JNum 3) \<and>
   (\<exists>d. main cdk [''desiredCount'' \<mapsto> JNum 0] \<lparr> pj_name = JStr ''svc'', pj_version = JStr ''1.0.0'' \<rparr> = Inr d \<and>
        ecs_desiredCount (dep_ecs d) = JNum 1) \<and>
   (\<exists>d. main cdk Map.empty \<lparr> pj_name = JStr ''svc'', pj_version = JStr ''1.0.0'' \<rparr> = Inr d \<and>
        ecs_desiredCount (dep_ecs d) = JNum 1)"
proof -
  let ?pj = "\<lparr> pj_name = JStr ''svc'', pj_version = JStr ''1.0.0'' \<rparr>"
  have r3: "\<exists>d. main cdk [''desiredCount'' \<mapsto> JNum 3] ?pj = Inr d"
    by (rule main_cdk_dev_svc)
       (simp_all add: app_project_def app_environment_def lookup_simps js_or_def
          cdk_accepts_three)
  have r0: "\<exists>d. main cdk [''desiredCount'' \<mapsto> JNum 0] ?pj = Inr d"
    by (rule main_cdk_dev_svc)
       (simp_all add: app_project_def app_environment_def lookup_simps js_or_def
          cdk_accepts_default_count)
  have rn: "\<exists>d. main cdk Map.empty ?pj = Inr d"
    by (rule main_cdk_dev_svc)
       (simp_all add: app_project_def app_environment_def lookup_simps js_or_def
          cdk_accepts_default_count)
  from r3 obtain d3 where d3: "main cdk [''desiredCount'' \<mapsto> JNum 3] ?pj = Inr d3" ..
  from r0 obtain d0 where d0: "main cdk [''desiredCount'' \<mapsto> JNum 0] ?pj = Inr d0" ..
  from rn obtain dn where dn: "main cdk Map.empty ?pj = Inr dn" ..
  from C3_desired_count_nonzero_or_one [OF d3] have "ecs_desiredCount (dep_ecs d3) = JNum 3"
    by simp
  moreover from C3_desired_count_nonzero_or_one [OF d0] have "ecs_desiredCount (dep_ecs d0) = JNum 1"
    by simp
  moreover from C3_desired_count_nonzero_or_one [OF dn] have "ecs_desiredCount (dep_ecs dn) = JNum 1"
    by simp
  ultimately show ?thesis using d3 d0 dn by blast
qed

section \<open>Derived names and tags\<close>

text \<open>
  Claim C4, evaluated on the code at environment \<^verbatim>\<open>"Prod"\<close> and project
  \<^verbatim>\<open>"Shop"\<close>: \<^verbatim>\<open>EcrStack\<close> derives the repository name
  \<^verbatim>\<open>"Prod-shop-ecr-repository"\<close>, lowercasing the project only, and
  \<^verbatim>\<open>ecr.Repository\<close> rejects it, which ends the run. With the environment
  \<^verbatim>\<open>"prod"\<close> the name is \<^verbatim>\<open>"prod-shop-ecr-repository"\<close> and is accepted. The three
  stack ids and the container name are lowercased as a whole.
\<close>

theorem C4_ecr_repository_name_environment_case:
  "main cdk [''environment'' \<mapsto> JStr ''Prod'', ''project'' \<mapsto> JStr ''Shop'']
         \<lparr> pj_name = JStr ''svc'', pj_version = JStr ''1.0.0'' \<rparr> =
     Inl (InvalidRepositoryName ''Prod-shop-ecr-repository'') \<and>
   EcrStack cdk [''environment'' \<mapsto> JStr ''Prod'', ''project'' \<mapsto> JStr ''Shop'']
     ''prod-shop-ecr'' \<lparr> description = ''Container Registry for Shop on ECS'' \<rparr> =
     Inl (InvalidRepositoryName ''Prod-shop-ecr-repository'') \<and>
   map_sum id ecr_repositoryName
     (EcrStack cdk [''environment'' \<mapsto> JStr ''prod'', ''project'' \<mapsto> JStr ''Shop'']
        ''prod-shop-ecr'' \<lparr> description = ''Container Registry for Shop on ECS'' \<rparr>) =
     Inr ''prod-shop-ecr-repository'' \<and>
   stack_id (JStr ''Prod'') (JStr ''Shop'') ''ecr'' = ''prod-shop-ecr'' \<and>
   stack_id (JStr ''Prod'') (JStr ''Shop'') ''ecs'' = ''prod-shop-ecs'' \<and>
   stack_id (JStr ''Prod'') (JStr ''Shop'') ''observability'' = ''prod-shop-observability'' \<and>
   map_sum id ecs_containerName
     (EcsStack cdk [''environment'' \<mapsto> JStr ''Prod'', ''project'' \<mapsto> JStr ''Shop'']
        ''prod-shop-ecs'' \<lparr> description = ''Deployment Stack for Shop on ECS'' \<rparr>) =
     Inr ''prod-shop-container''"
proof -
  let ?c = "[''environment'' \<mapsto> JStr ''Prod'', ''project'' \<mapsto> JStr ''Shop'']"
  let ?c' = "[''environment'' \<mapsto> JStr ''prod'', ''project'' \<mapsto> JStr ''Shop'']"
  let ?pj = "\<lparr> pj_name = JStr ''svc'', pj_version = JStr ''1.0.0'' \<rparr>"
  have l: "toLowerCase ''Shop'' = ''shop''" "toLowerCase ''Prod'' = ''prod''"
    "toLowerCase ''prod'' = ''prod''"
    by code_simp+
  have ids: "stack_id (JStr ''Prod'') (JStr ''Shop'') ''ecr'' = ''prod-shop-ecr''"
    "stack_id (JStr ''Prod'') (JStr ''Shop'') ''ecs'' = ''prod-shop-ecs''"
    "stack_id (JStr ''Prod'') (JStr ''Shop'') ''observability'' = ''prod-shop-observability''"
    by code_simp+
  have rej: "\<not> accepts_repository_name cdk ''Prod-shop-ecr-repository''"
    unfolding cdk_simps by code_simp
  have p: "tryGetContext ?c ''project'' = JStr ''Shop''"
    and e: "tryGetContext ?c ''environment'' = JStr ''Prod''"
    and p': "tryGetContext ?c' ''project'' = JStr ''Shop''"
    and e': "tryGetContext ?c' ''environment'' = JStr ''prod''"
    and dc: "tryGetContext ?c ''desiredCount'' = JUndefined"
    by (simp_all add: lookup_simps)
  have ecr: "EcrStack cdk ?c ''prod-shop-ecr''
               \<lparr> description = ''Container Registry for Shop on ECS'' \<rparr> =
               Inl (InvalidRepositoryName ''Prod-shop-ecr-repository'')"
    using rej
    by (simp add: constructor_unfold cdk_accepts_prod_shop EcrStack_body_strings [OF p e] l)
  have ap: "app_project ?c ?pj = JStr ''Shop''" and ae: "app_environment ?c = JStr ''Prod''"
    by (simp_all add: app_project_def app_environment_def lookup_simps)
  have rp: "tryGetContext (resolved_context ?c ?pj) ''project'' = JStr ''Shop''"
    and re: "tryGetContext (resolved_context ?c ?pj) ''environment'' = JStr ''Prod''"
    by (simp_all add: resolved_context_lookup ap ae)
  have m: "main cdk ?c ?pj = Inl (InvalidRepositoryName ''Prod-shop-ecr-repository'')"
    using rej
    by (simp add: main_unfold ap ae ids constructor_unfold cdk_accepts_prod_shop
        EcrStack_body_strings [OF rp re] l)
  have ecr': "map_sum id ecr_repositoryName
               (EcrStack cdk ?c' ''prod-shop-ecr''
                  \<lparr> description = ''Container Registry for Shop on ECS'' \<rparr>) =
               Inr ''prod-shop-ecr-repository''"
    by (simp add: constructor_unfold cdk_accepts_prod_shop EcrStack_body_strings [OF p' e'] l)
  have ecs: "map_sum id ecs_containerName
               (EcsStack cdk ?c ''prod-shop-ecs''
                  \<lparr> description = ''Deployment Stack for Shop on ECS'' \<rparr>) =
               Inr ''prod-shop-container''"
    by (simp add: constructor_unfold cdk_accepts_prod_shop EcsStack_body_strings [OF p e] l dc
        js_or_def cdk_accepts_default_count)
  from m ecr ecr' ids ecs show ?thesis by simp
qed



text \<open>
  Claim C6: the tag filters of the resource group's query hold the project and the
  environment in their original case, the tags hold them in lowercase; the two agree for
  an input exactly when it has no uppercase letter. The statements of the constructor
  build the stack for every project and environment; the constructor returns it when the
  base constructor accepts the id and the properties.
\<close>

theorem C6_query_value_matches_tag_iff_lowercase:
  assumes "tryGetContext scope ''project'' = JStr p"
    and "tryGetContext scope ''environment'' = JStr e"
  shows "\<exists>obs. ObservabilityStack_body scope sid props = Inr obs \<and>
           ObservabilityStack fw scope sid props =
             (if accepts_stack fw sid props then Inr obs else Inl (StackRejected sid)) \<and>
           obs_tagFilters obs = [(''project'', [p]), (''environment'', [e])] \<and>
           obs_tags obs = [(''project'', toLowerCase p), (''environment'', toLowerCase e)] \<and>
           (p = toLowerCase p \<longleftrightarrow> (\<forall>c \<in> set p. \<not> is_upper c)) \<and>
           (e = toLowerCase e \<longleftrightarrow> (\<forall>c \<in> set e. \<not> is_upper c))"
  using toLowerCase_fixed [of p] toLowerCase_fixed [of e]
  by (auto simp add: constructor_unfold ObservabilityStack_body_strings [OF assms])

text \<open>
  An instance: the project \<^verbatim>\<open>"Shop"\<close> is filtered as \<^verbatim>\<open>"Shop"\<close> and tagged
  \<^verbatim>\<open>"shop"\<close>; the environment \<^verbatim>\<open>"prod"\<close> is the same in both.
\<close>

theorem C6_query_value_matches_tag_iff_lowercase_witness:
  "tryGetContext [''project'' \<mapsto> JStr ''Shop'', ''environment'' \<mapsto> JStr ''prod''] ''project'' = JStr ''Shop'' \<and>
   tryGetContext [''project'' \<mapsto> JStr ''Shop'', ''environment'' \<mapsto> JStr ''prod''] ''environment'' = JStr ''prod'' \<and>
   (\<exists>obs. ObservabilityStack cdk [''project'' \<mapsto> JStr ''Shop'', ''environment'' \<mapsto> JStr ''prod'']
            ''prod-shop-observability''
            \<lparr> description = ''Observability Resources for Shop on ECS'' \<rparr> = Inr obs \<and>
          obs_tagFilters obs = [(''project'', [''Shop'']), (''environment'', [''prod''])] \<and>
          obs_tags obs = [(''project'', ''shop''), (''environment'', ''prod'')]) \<and>
   \<not> (\<forall>c \<in> set ''Shop''. \<not> is_upper c) \<and>
   (\<forall>c \<in> set ''prod''. \<not> is_upper c) = True"
proof -
  let ?c = "[''project'' \<mapsto> JStr ''Shop'', ''environment'' \<mapsto> JStr ''prod'']"
  have p: "tryGetContext ?c ''project'' = JStr ''Shop''"
    by (simp add: lookup_simps)
  have e: "tryGetContext ?c ''environment'' = JStr ''prod''"
    by (simp add: lookup_simps)
  from C6_query_value_matches_tag_iff_lowercase [OF p e, of "''prod-shop-observability''"
      "\<lparr> description = ''Observability Resources for Shop on ECS'' \<rparr>" cdk]
  show ?thesis unfolding lower_shop_prod using p e cdk_accepts_prod_shop(3) by auto
qed

text \<open>
  Claim C7: the project the script resolves is the override when it is present and
  non-empty, taken verbatim, and the manifest's name when the override is absent or
  empty; a stack id holds the project in lowercase; and in every run that returns, the
  context holds the resolved project and the stacks carry the ids derived from it.
\<close>

theorem C7_project_precedence:
  "(ctx ''project'' = Some (JStr s) \<and> s \<noteq> [] \<longrightarrow> app_project ctx pj = JStr s) \<and>
   (ctx ''project'' = None \<or> ctx ''project'' = Some (JStr '''') \<longrightarrow>
      app_project ctx pj = pj_name pj) \<and>
   stack_id environment (JStr p) suffix =
     toLowerCase (ToString environment) @ ''-'' @ toLowerCase p @ ''-'' @ toLowerCase suffix \<and>
   (main fw ctx pj = Inr d \<longrightarrow>
      tryGetContext (dep_context d) ''project'' = app_project ctx pj \<and>
      ecr_id (dep_ecr d) = stack_id (app_environment ctx) (app_project ctx pj) ''ecr'' \<and>
      ecs_id (dep_ecs d) = stack_id (app_environment ctx) (app_project ctx pj) ''ecs'' \<and>
      obs_id (dep_observability d) =
        stack_id (app_environment ctx) (app_project ctx pj) ''observability'')"
proof (intro conjI impI)
  assume "ctx ''project'' = Some (JStr s) \<and> s \<noteq> []"
  then show "app_project ctx pj = JStr s"
    by (simp add: app_project_def tryGetContext_def)
next
  assume "ctx ''project'' = None \<or> ctx ''project'' = Some (JStr '''')"
  then show "app_project ctx pj = pj_name pj"
    by (auto simp add: app_project_def tryGetContext_def)
next
  show "stack_id environment (JStr p) suffix =
     toLowerCase (ToString environment) @ ''-'' @ toLowerCase p @ ''-'' @ toLowerCase suffix"
    by (simp add: stack_id_append)
next
  assume m: "main fw ctx pj = Inr d"
  then show "tryGetContext (dep_context d) ''project'' = app_project ctx pj"
    by (rule main_Inr) (simp add: resolved_context_lookup)
  from m show "ecr_id (dep_ecr d) = stack_id (app_environment ctx) (app_project ctx pj) ''ecr''"
    by (rule main_Inr) simp
  from m show "ecs_id (dep_ecs d) = stack_id (app_environment ctx) (app_project ctx pj) ''ecs''"
    by (rule main_Inr) simp
  from m show "obs_id (dep_observability d) =
        stack_id (app_environment ctx) (app_project ctx pj) ''observability''"
    by (rule main_Inr) simp
qed

text \<open>
  Instances, under the framework's checks: the override \<^verbatim>\<open>"Shop"\<close>; no override
  with the manifest \<^verbatim>\<open>{name: "MyApp", version: "2.3.0"}\<close>, where the project is
  \<^verbatim>\<open>"MyApp"\<close> and the ids use \<^verbatim>\<open>myapp\<close>; and the empty override.
\<close>

theorem C7_project_precedence_witness:
  "(\<exists>d. main cdk [''project'' \<mapsto> JStr ''Shop''] \<lparr> pj_name = JStr ''MyApp'', pj_version = JStr ''2.3.0'' \<rparr> = Inr d \<and>
        tryGetContext (dep_context d) ''project'' = JStr ''Shop'' \<and>
        ecr_id (dep_ecr d) = ''dev-shop-ecr'' \<and>
        ecs_id (dep_ecs d) = ''dev-shop-ecs'' \<and>
        obs_id (dep_observability d) = ''dev-shop-observability'') \<and>
   (\<exists>d. main cdk Map.empty \<lparr> pj_name = JStr ''MyApp'', pj_version = JStr ''2.3.0'' \<rparr> = Inr d \<and>
        tryGetContext (dep_context d) ''project'' = JStr ''MyApp'' \<and>
        ecr_id (dep_ecr d) = ''dev-myapp-ecr'' \<and>
        ecs_id (dep_ecs d) = ''dev-myapp-ecs'' \<and>
        obs_id (dep_observability d) = ''dev-myapp-observability'') \<and>
   (\<exists>d. main cdk [''project'' \<mapsto> JStr ''''] \<lparr> pj_name = JStr ''MyApp'', pj_version = JStr ''2.3.0'' \<rparr> = Inr d \<and>
        tryGetContext (dep_context d) ''project'' = JStr ''MyApp'' \<and>
        ecr_id (dep_ecr d) = ''dev-myapp-ecr'' \<and>
        ecs_id (dep_ecs d) = ''dev-myapp-ecs'' \<and>
        obs_id (dep_observability d) = ''dev-myapp-observability'')"
proof -
  let ?pj = "\<lparr> pj_name = JStr ''MyApp'', pj_version = JStr ''2.3.0'' \<rparr>"
  let ?c1 = "[''project'' \<mapsto> JStr ''Shop'']"
  let ?c2 = "Map.empty :: context"
  let ?c3 = "[''project'' \<mapsto> JStr '''']"
  have e: "app_environment ?c1 = JStr ''dev''" "app_environment ?c2 = JStr ''dev''"
    "app_environment ?c3 = JStr ''dev''"
    by (simp_all add: app_environment_def lookup_simps)
  have dc: "js_or (tryGetContext ?c1 ''desiredCount'') (JNum 1) = JNum 1"
    "js_or (tryGetContext ?c2 ''desiredCount'') (JNum 1) = JNum 1"
    "js_or (tryGetContext ?c3 ''desiredCount'') (JNum 1) = JNum 1"
    by (simp_all add: lookup_simps js_or_def)
  have p1: "app_project ?c1 ?pj = JStr ''Shop''"
    using C7_project_precedence [of ?c1 "''Shop''" ?pj] by simp
  have p2: "app_project ?c2 ?pj = JStr ''MyApp''"
    using C7_project_precedence [of ?c2 _ ?pj] by simp
  have p3: "app_project ?c3 ?pj = JStr ''MyApp''"
    using C7_project_precedence [of ?c3 _ ?pj] by simp
  have "\<exists>d. main cdk ?c1 ?pj = Inr d"
    by (rule main_returns [OF p1 e(1)])
       (simp_all add: stack_ids_dev_myapp cdk_accepts_dev_myapp lower_shop_prod lower_svc dc
          cdk_accepts_default_count)
  then obtain d1 where d1: "main cdk ?c1 ?pj = Inr d1" ..
  have "\<exists>d. main cdk ?c2 ?pj = Inr d"
    by (rule main_returns [OF p2 e(2)])
       (simp_all add: stack_ids_dev_myapp cdk_accepts_dev_myapp lower_myapp lower_svc dc
          cdk_accepts_default_count)
  then obtain d2 where d2: "main cdk ?c2 ?pj = Inr d2" ..
  have "\<exists>d. main cdk ?c3 ?pj = Inr d"
    by (rule main_returns [OF p3 e(3)])
       (simp_all add: stack_ids_dev_myapp cdk_accepts_dev_myapp lower_myapp lower_svc dc
          cdk_accepts_default_count)
  then obtain d3 where d3: "main cdk ?c3 ?pj = Inr d3" ..
  from C7_project_precedence [of ?c1 _ ?pj _ _ _ cdk d1] d1
  have r1: "tryGetContext (dep_context d1) ''project'' = JStr ''Shop'' \<and>
        ecr_id (dep_ecr d1) = ''dev-shop-ecr'' \<and>
        ecs_id (dep_ecs d1) = ''dev-shop-ecs'' \<and>
        obs_id (dep_observability d1) = ''dev-shop-observability''"
    by (simp add: p1 e stack_ids_dev_myapp)
  from C7_project_precedence [of ?c2 _ ?pj _ _ _ cdk d2] d2
  have r2: "tryGetContext (dep_context d2) ''project'' = JStr ''MyApp'' \<and>
        ecr_id (dep_ecr d2) = ''dev-myapp-ecr'' \<and>
        ecs_id (dep_ecs d2) = ''dev-myapp-ecs'' \<and>
        obs_id (dep_observability d2) = ''dev-myapp-observability''"
    by (simp add: p2 e stack_ids_dev_myapp)
  from C7_project_precedence [of ?c3 _ ?pj _ _ _ cdk d3] d3
  have r3: "tryGetContext (dep_context d3) ''project'' = JStr ''MyApp'' \<and>
        ecr_id (dep_ecr d3) = ''dev-myapp-ecr'' \<and>
        ecs_id (dep_ecs d3) = ''dev-myapp-ecs'' \<and>
        obs_id (dep_observability d3) = ''dev-myapp-observability''"
    by (simp add: p3 e stack_ids_dev_myapp)
  from d1 r1 d2 r2 d3 r3 show ?thesis by blast
qed

text \<open>
  Claim C8: the resolution is deterministic and idempotent. Two runs whose contexts agree
  on the keys the code reads, with the same manifest, end alike: the same error, or the
  same resolved project, version and environment and the same three stacks (names and
  tags included). A run on the context an earlier run resolved gives that run's result
  again. With project \<^verbatim>\<open>"Shop"\<close> and environment \<^verbatim>\<open>"prod"\<close> every stack id begins
  with \<^verbatim>\<open>"prod-shop-"\<close>, and every run that returns tags its stacks
  \<^verbatim>\<open>{project: "shop", environment: "prod"}\<close>.
\<close>

theorem C8_deterministic_idempotent:
  "((\<forall>k \<in> {''project'', ''version'', ''environment'', ''desiredCount'', ''ecrRepoName'',
             ''ecrImageTag'', ''domainName''}. ctx k = ctx' k) \<longrightarrow>
      map_sum id (\<lambda>d. (tryGetContext (dep_context d) ''project'',
                        tryGetContext (dep_context d) ''version'',
                        tryGetContext (dep_context d) ''environment'',
                        dep_ecr d, dep_ecs d, dep_observability d)) (main fw ctx pj) =
      map_sum id (\<lambda>d. (tryGetContext (dep_context d) ''project'',
                        tryGetContext (dep_context d) ''version'',
                        tryGetContext (dep_context d) ''environment'',
                        dep_ecr d, dep_ecs d, dep_observability d)) (main fw ctx' pj)) \<and>
   (main fw ctx pj = Inr d \<longrightarrow> main fw (dep_context d) pj = Inr d) \<and>
   (ctx ''project'' = Some (JStr ''Shop'') \<and> ctx ''environment'' = Some (JStr ''prod'') \<longrightarrow>
      stack_id (app_environment ctx) (app_project ctx pj) suffix =
        ''prod-shop-'' @ toLowerCase suffix \<and>
      (\<forall>r. main fw ctx pj = Inr r \<longrightarrow>
           ecr_tags (dep_ecr r) = [(''project'', ''shop''), (''environment'', ''prod'')] \<and>
           ecs_tags (dep_ecs r) = [(''project'', ''shop''), (''environment'', ''prod'')] \<and>
           obs_tags (dep_observability r) = [(''project'', ''shop''), (''environment'', ''prod'')] \<and>
           ecr_id (dep_ecr r) = ''prod-shop-'' @ ''ecr'' \<and>
           ecs_id (dep_ecs r) = ''prod-shop-'' @ ''ecs'' \<and>
           obs_id (dep_observability r) = ''prod-shop-'' @ ''observability''))"
proof (intro conjI impI allI)
  assume "\<forall>k \<in> {''project'', ''version'', ''environment'', ''desiredCount'', ''ecrRepoName'',
             ''ecrImageTag'', ''domainName''}. ctx k = ctx' k"
  then show "map_sum id (\<lambda>d. (tryGetContext (dep_context d) ''project'',
                        tryGetContext (dep_context d) ''version'',
                        tryGetContext (dep_context d) ''environment'',
                        dep_ecr d, dep_ecs d, dep_observability d)) (main fw ctx pj) =
      map_sum id (\<lambda>d. (tryGetContext (dep_context d) ''project'',
                        tryGetContext (dep_context d) ''version'',
                        tryGetContext (dep_context d) ''environment'',
                        dep_ecr d, dep_ecs d, dep_observability d)) (main fw ctx' pj)"
    by (rule main_depends_on_keys)
next
  assume m: "main fw ctx pj = Inr d"
  then have "dep_context d = resolved_context ctx pj"
    by (rule main_Inr) simp
  with m show "main fw (dep_context d) pj = Inr d"
    by (simp add: main_resolved)
next
  assume h: "ctx ''project'' = Some (JStr ''Shop'') \<and> ctx ''environment'' = Some (JStr ''prod'')"
  then have p: "app_project ctx pj = JStr ''Shop''" and e: "app_environment ctx = JStr ''prod''"
    by (simp_all add: app_project_def app_environment_def tryGetContext_def)
  show "stack_id (app_environment ctx) (app_project ctx pj) suffix =
        ''prod-shop-'' @ toLowerCase suffix"
    by (simp add: p e stack_id_append lower_shop_prod)
  fix r
  assume m: "main fw ctx pj = Inr r"
  from m show "ecr_tags (dep_ecr r) = [(''project'', ''shop''), (''environment'', ''prod'')]"
    by (rule main_Inr) (use p e in \<open>auto simp: lower_shop_prod\<close>)
  from m show "ecs_tags (dep_ecs r) = [(''project'', ''shop''), (''environment'', ''prod'')]"
    by (rule main_Inr) (use p e in \<open>auto simp: lower_shop_prod\<close>)
  from m show "obs_tags (dep_observability r) = [(''project'', ''shop''), (''environment'', ''prod'')]"
    by (rule main_Inr) (use p e in \<open>auto simp: lower_shop_prod\<close>)
  from m show "ecr_id (dep_ecr r) = ''prod-shop-'' @ ''ecr''"
    by (rule main_Inr) (use p e in \<open>auto simp: stack_ids_prod_shop\<close>)
  from m show "ecs_id (dep_ecs r) = ''prod-shop-'' @ ''ecs''"
    by (rule main_Inr) (use p e in \<open>auto simp: stack_ids_prod_shop\<close>)
  from m show "obs_id (dep_observability r) = ''prod-shop-'' @ ''observability''"
    by (rule main_Inr) (use p e in \<open>auto simp: stack_ids_prod_shop\<close>)
qed

text \<open>
  Instances, under the framework's checks: two contexts that hold project
  \<^verbatim>\<open>"Shop"\<close> and environment \<^verbatim>\<open>"prod"\<close>, one of them with a further key the code
  does not read.
\<close>

theorem C8_deterministic_idempotent_witness:
  "map_sum id (\<lambda>d. (tryGetContext (dep_context d) ''project'',
                     tryGetContext (dep_context d) ''version'',
                     tryGetContext (dep_context d) ''environment'',
                     dep_ecr d, dep_ecs d, dep_observability d))
     (main cdk [''project'' \<mapsto> JStr ''Shop'', ''environment'' \<mapsto> JStr ''prod'']
           \<lparr> pj_name = JStr ''svc'', pj_version = JStr ''1.0.0'' \<rparr>) =
   map_sum id (\<lambda>d. (tryGetContext (dep_context d) ''project'',
                     tryGetContext (dep_context d) ''version'',
                     tryGetContext (dep_context d) ''environment'',
                     dep_ecr d, dep_ecs d, dep_observability d))
     (main cdk [''environment'' \<mapsto> JStr ''prod'', ''project'' \<mapsto> JStr ''Shop'', ''owner'' \<mapsto> JStr ''ops'']
           \<lparr> pj_name = JStr ''svc'', pj_version = JStr ''1.0.0'' \<rparr>) \<and>
   (\<exists>r. main cdk [''project'' \<mapsto> JStr ''Shop'', ''environment'' \<mapsto> JStr ''prod'']
              \<lparr> pj_name = JStr ''svc'', pj_version = JStr ''1.0.0'' \<rparr> = Inr r \<and>
        main cdk (dep_context r) \<lparr> pj_name = JStr ''svc'', pj_version = JStr ''1.0.0'' \<rparr> = Inr r \<and>
        ecr_tags (dep_ecr r) = [(''project'', ''shop''), (''environment'', ''prod'')] \<and>
        ecs_tags (dep_ecs r) = [(''project'', ''shop''), (''environment'', ''prod'')] \<and>
        obs_tags (dep_observability r) = [(''project'', ''shop''), (''environment'', ''prod'')] \<and>
        ecr_id (dep_ecr r) = ''prod-shop-ecr'' \<and>
        ecs_id (dep_ecs r) = ''prod-shop-ecs'' \<and>
        obs_id (dep_observability r) = ''prod-shop-observability'')"
proof -
  let ?c = "[''project'' \<mapsto> JStr ''Shop'', ''environment'' \<mapsto> JStr ''prod'']"
  let ?c' = "[''environment'' \<mapsto> JStr ''prod'', ''project'' \<mapsto> JStr ''Shop'', ''owner'' \<mapsto> JStr ''ops'']"
  let ?pj = "\<lparr> pj_name = JStr ''svc'', pj_version = JStr ''1.0.0'' \<rparr>"
  have k: "\<forall>k \<in> {''project'', ''version'', ''environment'', ''desiredCount'', ''ecrRepoName'',
             ''ecrImageTag'', ''domainName''}. ?c k = ?c' k"
    by simp
  have h: "?c ''project'' = Some (JStr ''Shop'') \<and> ?c ''environment'' = Some (JStr ''prod'')"
    by simp
  have "\<exists>r. main cdk ?c ?pj = Inr r"
    by (rule main_cdk_prod_shop)
       (simp_all add: app_project_def app_environment_def lookup_simps js_or_def
          cdk_accepts_default_count)
  then obtain r where r: "main cdk ?c ?pj = Inr r" ..
  note T = C8_deterministic_idempotent [of ?c ?c' cdk ?pj r]
  from T k have one: "map_sum id (\<lambda>d. (tryGetContext (dep_context d) ''project'',
                     tryGetContext (dep_context d) ''version'',
                     tryGetContext (dep_context d) ''environment'',
                     dep_ecr d, dep_ecs d, dep_observability d)) (main cdk ?c ?pj) =
   map_sum id (\<lambda>d. (tryGetContext (dep_context d) ''project'',
                     tryGetContext (dep_context d) ''version'',
                     tryGetContext (dep_context d) ''environment'',
                     dep_ecr d, dep_ecs d, dep_observability d)) (main cdk ?c' ?pj)"
    by blast
  from T r have two: "main cdk (dep_context r) ?pj = Inr r" by blast
  from T h r have three: "ecr_tags (dep_ecr r) = [(''project'', ''shop''), (''environment'', ''prod'')] \<and>
        ecs_tags (dep_ecs r) = [(''project'', ''shop''), (''environment'', ''prod'')] \<and>
        obs_tags (dep_observability r) = [(''project'', ''shop''), (''environment'', ''prod'')] \<and>
        ecr_id (dep_ecr r) = ''prod-shop-ecr'' \<and>
        ecs_id (dep_ecs r) = ''prod-shop-ecs'' \<and>
        obs_id (dep_observability r) = ''prod-shop-observability''"
    by simp
  from one r two three show ?thesis by blast
qed

text \<open>
  Claim C9: for every project and environment the three stack ids (suffixes
  \<^verbatim>\<open>ecr\<close>, \<^verbatim>\<open>ecs\<close>, \<^verbatim>\<open>observability\<close>) are pairwise distinct, and so are the
  ids of the stacks of every run that builds them.
\<close>

theorem C9_stack_ids_distinct:
  "distinct [stack_id environment project ''ecr'', stack_id environment project ''ecs'',
             stack_id environment project ''observability''] \<and>
   (main fw ctx pj = Inr d \<longrightarrow>
      distinct [ecr_id (dep_ecr d), ecs_id (dep_ecs d), obs_id (dep_observability d)])"
proof (intro conjI impI)
  show "distinct [stack_id environment project ''ecr'', stack_id environment project ''ecs'',
             stack_id environment project ''observability'']"
    by (simp add: stack_id_append lower_suffixes)
next
  assume "main fw ctx pj = Inr d"
  then show "distinct [ecr_id (dep_ecr d), ecs_id (dep_ecs d), obs_id (dep_observability d)]"
    by (rule main_Inr) (simp add: stack_id_append lower_suffixes)
qed

text \<open>
  An instance: project \<^verbatim>\<open>"Shop"\<close>, environment \<^verbatim>\<open>"prod"\<close>.
\<close>

theorem C9_stack_ids_distinct_witness:
  "(\<exists>d. main cdk [''project'' \<mapsto> JStr ''Shop'', ''environment'' \<mapsto> JStr ''prod'']
              \<lparr> pj_name = JStr ''svc'', pj_version = JStr ''1.0.0'' \<rparr> = Inr d \<and>
        distinct [ecr_id (dep_ecr d), ecs_id (dep_ecs d), obs_id (dep_observability d)])"
proof -
  let ?c = "[''project'' \<mapsto> JStr ''Shop'', ''environment'' \<mapsto> JStr ''prod'']"
  let ?pj = "\<lparr> pj_name = JStr ''svc'', pj_version = JStr ''1.0.0'' \<rparr>"
  have "\<exists>r. main cdk ?c ?pj = Inr r"
    by (rule main_cdk_prod_shop)
       (simp_all add: app_project_def app_environment_def lookup_simps js_or_def
          cdk_accepts_default_count)
  then obtain d where d: "main cdk ?c ?pj = Inr d" ..
  with C9_stack_ids_distinct [of _ _ cdk ?c ?pj d] show ?thesis by blast
qed

section \<open>A stack constructed on its own\<close>

text \<open>
  Claim C10: when the context a stack reads has no \<^verbatim>\<open>project\<close> or no
  \<^verbatim>\<open>environment\<close>, the statements of each of the three constructors end in the
  engine's \<^verbatim>\<open>TypeError\<close> (the lowercasing of a value that is not there), not in a
  \<^verbatim>\<open>ConfigurationError\<close>: the constructors are not total. A constructor whose id and
  properties the base constructor accepts ends in that \<^verbatim>\<open>TypeError\<close>.
\<close>

theorem C10_absent_key_type_error:
  assumes "scope ''project'' = None \<or> scope ''environment'' = None"
  shows "EcrStack_body fw scope id1 props1 = Inl TypeError \<and>
         EcsStack_body fw scope id2 props2 = Inl TypeError \<and>
         ObservabilityStack_body scope id3 props3 = Inl TypeError \<and>
         EcrStack fw scope id1 props1 =
           (if accepts_stack fw id1 props1 then Inl TypeError else Inl (StackRejected id1)) \<and>
         EcsStack fw scope id2 props2 =
           (if accepts_stack fw id2 props2 then Inl TypeError else Inl (StackRejected id2)) \<and>
         ObservabilityStack fw scope id3 props3 =
           (if accepts_stack fw id3 props3 then Inl TypeError else Inl (StackRejected id3))"
proof -
  from assms have "(\<nexists>p. tryGetContext scope ''project'' = JStr p) \<or>
                   (\<nexists>e. tryGetContext scope ''environment'' = JStr e)"
    by (auto simp: tryGetContext_def)
  then show ?thesis
    by (simp add: constructor_unfold body_not_strings)
qed

text \<open>
  Instances: a context with no project, and one with no environment.
\<close>

theorem C10_absent_key_type_error_witness:
  "EcrStack cdk [''environment'' \<mapsto> JStr ''dev''] ''dev-svc-ecr'' \<lparr> description = ''d'' \<rparr> = Inl TypeError \<and>
   EcsStack cdk [''environment'' \<mapsto> JStr ''dev''] ''dev-svc-ecs'' \<lparr> description = ''d'' \<rparr> = Inl TypeError \<and>
   ObservabilityStack cdk [''environment'' \<mapsto> JStr ''dev''] ''dev-svc-observability'' \<lparr> description = ''d'' \<rparr> = Inl TypeError \<and>
   EcrStack cdk [''project'' \<mapsto> JStr ''svc''] ''dev-svc-ecr'' \<lparr> description = ''d'' \<rparr> = Inl TypeError \<and>
   EcsStack cdk [''project'' \<mapsto> JStr ''svc''] ''dev-svc-ecs'' \<lparr> description = ''d'' \<rparr> = Inl TypeError \<and>
   ObservabilityStack cdk [''project'' \<mapsto> JStr ''svc''] ''dev-svc-observability'' \<lparr> description = ''d'' \<rparr> = Inl TypeError"
proof -
  have a: "[''environment'' \<mapsto> JStr ''dev''] ''project'' = None \<or>
           [''environment'' \<mapsto> JStr ''dev''] ''environment'' = None"
    by simp
  have b: "[''project'' \<mapsto> JStr ''svc''] ''project'' = None \<or>
           [''project'' \<mapsto> JStr ''svc''] ''environment'' = None"
    by simp
  note A = C10_absent_key_type_error [OF a, of cdk "''dev-svc-ecr''" "\<lparr> description = ''d'' \<rparr>"
         "''dev-svc-ecs''" "\<lparr> description = ''d'' \<rparr>" "''dev-svc-observability''"
         "\<lparr> description = ''d'' \<rparr>"]
  note B = C10_absent_key_type_error [OF b, of cdk "''dev-svc-ecr''" "\<lparr> description = ''d'' \<rparr>"
         "''dev-svc-ecs''" "\<lparr> description = ''d'' \<rparr>" "''dev-svc-observability''"
         "\<lparr> description = ''d'' \<rparr>"]
  have acc: "accepts_stack cdk ''dev-svc-ecr'' \<lparr> description = ''d'' \<rparr>"
    "accepts_stack cdk ''dev-svc-ecs'' \<lparr> description = ''d'' \<rparr>"
    "accepts_stack cdk ''dev-svc-observability'' \<lparr> description = ''d'' \<rparr>"
    by (simp_all add: cdk_accepts_dev_svc)
  from A B show ?thesis
    by (simp only: acc if_True simp_thms)
qed

end
